theory Spec2Isabelle
  imports Main "HOL-Library.Word"
begin

section \<open>The InfluxDB v2 connection producer of the Vault database plugin\<close>

text \<open>
  A shallow embedding of \<^verbatim>\<open>influxdbConnectionProducer\<close> (package \<^verbatim>\<open>influxdbv2\<close>):
  its struct, the methods \<^verbatim>\<open>Initialize\<close>, \<^verbatim>\<open>Connection\<close>, \<^verbatim>\<open>Close\<close>,
  \<^verbatim>\<open>createClient\<close>, \<^verbatim>\<open>secretValues\<close> and the function
  \<^verbatim>\<open>isTokenSufficientAccess\<close>.

  The receiver \<^verbatim>\<open>i\<close> is passed in and returned updated. Everything the methods do to
  the outside (taking and releasing the mutex, constructing a client, the liveness probe,
  the authorizations query, closing a client) is appended to a trace of events, so that
  what a call did can be read off the trace. The libraries the methods call
  (mapstructure, parseutil, certutil, tlsutil) and the InfluxDB server are parameters of
  the model: every theorem holds for whatever they answer.
\<close>

subsection \<open>Errors\<close>

text \<open>
  \<^verbatim>\<open>errors.New(s)\<close> and \<^verbatim>\<open>fmt.Errorf(s)\<close> without a wrapped operand are \<open>New s\<close>;
  \<^verbatim>\<open>fmt.Errorf("prefix: %w", err)\<close> is \<open>Wrap ''prefix: '' err\<close>;
  \<^verbatim>\<open>connutil.ErrNotInitialized\<close> is the sentinel \<open>ErrNotInitialized\<close>.
\<close>

datatype error = New string | Wrap string error | ErrNotInitialized

text \<open>The verb \<^verbatim>\<open>%t\<close> of \<^verbatim>\<open>fmt\<close>.\<close>

definition fmtBool :: "bool \<Rightarrow> string" where
  "fmtBool b = (if b then ''true'' else ''false'')"

subsection \<open>Data\<close>

text \<open>A value of type \<^verbatim>\<open>interface{}\<close> in the configuration map.\<close>

datatype ival = INil | IString string | IInt int | IBool bool
  | IList "ival list" | IMap "(string \<times> ival) list"

type_synonym config = "string \<rightharpoonup> ival"

record InitializeRequest =
  Config :: config
  VerifyConnection :: bool

datatype InitializeResponse = InitializeResponse config

text \<open>
  The three PEM fields of \<^verbatim>\<open>certutil.CertBundle\<close> that the producer reads and writes, and
  the parsed form \<^verbatim>\<open>certutil.ParsedCertBundle\<close>, whose content only the library looks at.
\<close>

record CertBundle =
  Certificate :: string
  PrivateKey :: string
  IssuingCA :: string

datatype ParsedCertBundle = ParsedCertBundle string string string

text \<open>
  The fields of \<^verbatim>\<open>tls.Config\<close> that \<^verbatim>\<open>createClient\<close> sets, and the key material the
  library put into it. \<open>emptyTLSConfig\<close> is \<^verbatim>\<open>&tls.Config{}\<close>.
\<close>

record TLSConfig =
  InsecureSkipVerify :: bool
  MinVersion :: "16 word"
  KeyMaterial :: "ParsedCertBundle option"

definition emptyTLSConfig :: TLSConfig where
  "emptyTLSConfig = \<lparr>InsecureSkipVerify = False, MinVersion = 0, KeyMaterial = None\<rparr>"

text \<open>
  A client handle (\<^verbatim>\<open>influxdb2.Client\<close>): what it was constructed with, and an identity
  \<open>cid\<close> that tells two handles apart. \<open>clientOptions = None\<close> is a client made by
  \<^verbatim>\<open>NewClient\<close> with the default options.
\<close>

record Client =
  cid :: nat
  serverURL :: string
  authToken :: string
  clientOptions :: "TLSConfig option"

text \<open>
  Modelled from the spec: the authorization records and permissions are types of the
  InfluxDB client library (\<^verbatim>\<open>domain.Authorization\<close>, \<^verbatim>\<open>domain.Permission\<close>), not declared
  in this repository. As in the spec's data model a record is a pair of a token and a
  list of permissions, and a permission is a pair of an action and a resource type
  (\<^verbatim>\<open>permission.Action\<close>, \<^verbatim>\<open>permission.Resource.Type\<close>); the pointers the source
  dereferences (\<^verbatim>\<open>*authorization.Token\<close>, \<^verbatim>\<open>*authorization.Permissions\<close>) are taken to be set.
\<close>

record Permission =
  Action :: string
  ResourceType :: string

record Authorization =
  authorizationToken :: string
  authorizationPermissions :: "Permission list"

subsection \<open>The producer\<close>

text \<open>
  The exported fields of the struct: the ones \<^verbatim>\<open>mapstructure.WeakDecode\<close> can write
  (it skips fields it cannot set). \<open>ConnectTimeoutRaw = INil\<close> is the nil interface.
\<close>

record exported =
  Host :: string
  Token :: string
  Port :: string
  TLS :: bool
  InsecureTLS :: bool
  ConnectTimeoutRaw :: ival
  TLSMinVersion :: string
  PemBundle :: string
  PemJSON :: string
  DefaultBucket :: string
  Organization :: string
  Initialized :: bool
  Type :: string

text \<open>
  The whole struct \<^verbatim>\<open>influxdbConnectionProducer\<close>. \<open>connectTimeout\<close> is a
  \<^verbatim>\<open>time.Duration\<close> (nanoseconds); \<open>client = None\<close> is the nil interface value. The
  embedded \<^verbatim>\<open>sync.Mutex\<close> has no field here: taking and releasing it are events.
\<close>

record producer = exported +
  connectTimeout :: int
  certificate :: string
  privateKey :: string
  issuingCA :: string
  rawConfig :: config
  client :: "Client option"

definition exportedOf :: "producer \<Rightarrow> exported" where
  "exportedOf i = \<lparr>Host = Host i, Token = Token i, Port = Port i, TLS = TLS i,
     InsecureTLS = InsecureTLS i, ConnectTimeoutRaw = ConnectTimeoutRaw i,
     TLSMinVersion = TLSMinVersion i, PemBundle = PemBundle i, PemJSON = PemJSON i,
     DefaultBucket = DefaultBucket i, Organization = Organization i,
     Initialized = Initialized i, Type = Type i\<rparr>"

definition storeExported :: "exported \<Rightarrow> producer \<Rightarrow> producer" where
  "storeExported d i = i\<lparr>Host := Host d, Token := Token d, Port := Port d, TLS := TLS d,
     InsecureTLS := InsecureTLS d, ConnectTimeoutRaw := ConnectTimeoutRaw d,
     TLSMinVersion := TLSMinVersion d, PemBundle := PemBundle d, PemJSON := PemJSON d,
     DefaultBucket := DefaultBucket d, Organization := Organization d,
     Initialized := Initialized d, Type := Type d\<rparr>"

subsection \<open>The outside: events, libraries, server\<close>

datatype event =
    EvLock
  | EvUnlock
  | EvNewClient Client
  | EvPing Client
  | EvGetAuthorizations Client
  | EvClose Client

type_synonym trace = "event list"

text \<open>
  The library functions the producer calls, as the source calls them. Their code is not
  part of this repository. \<open>WeakDecode\<close> decodes the configuration map into the exported
  fields it is given and may fail; \<open>ParseDurationSecond\<close> returns a duration and an error
  (both are assigned by the caller); \<open>GetTLSConfig\<close> returns a pointer that may be nil and
  an error; \<open>TLSLookup\<close> is the table of TLS version names; \<open>GoSyntax\<close> is the
  \<^verbatim>\<open>%#v\<close> rendering of a TLS configuration pointer.
\<close>

record libs =
  WeakDecode :: "config \<Rightarrow> exported \<Rightarrow> error option \<times> exported"
  ParseDurationSecond :: "ival \<Rightarrow> int \<times> error option"
  ParsePKIJSON :: "string \<Rightarrow> error + ParsedCertBundle"
  ParsePEMBundle :: "string \<Rightarrow> error + ParsedCertBundle"
  ToCertBundle :: "ParsedCertBundle \<Rightarrow> error + CertBundle"
  ToParsedCertBundle :: "CertBundle \<Rightarrow> error + ParsedCertBundle"
  GetTLSConfig :: "ParsedCertBundle \<Rightarrow> TLSConfig option \<times> error option"
  TLSLookup :: "string \<rightharpoonup> 16 word"
  GoSyntax :: "TLSConfig option \<Rightarrow> string"

text \<open>
  The server, as seen through a client: the answer to a liveness probe and to the
  authorizations query. The second argument is the number of events so far, so the
  answers may change from one call to the next.
\<close>

record server =
  Ping :: "Client \<Rightarrow> nat \<Rightarrow> error option"
  GetAuthorizations :: "Client \<Rightarrow> nat \<Rightarrow> error + Authorization list"

subsection \<open>isTokenSufficientAccess\<close>

text \<open>The four local booleans of \<^verbatim>\<open>isTokenSufficientAccess\<close>.\<close>

record flags =
  hasUserRead :: bool
  hasUserWrite :: bool
  hasOrganizationsRead :: bool
  hasOrganizationsWrite :: bool

definition noFlags :: flags where
  "noFlags = \<lparr>hasUserRead = False, hasUserWrite = False,
     hasOrganizationsRead = False, hasOrganizationsWrite = False\<rparr>"

text \<open>The bodies of the two inner loops over the permissions of one record.\<close>

definition usersStep :: "Permission \<Rightarrow> flags \<Rightarrow> flags" where
  "usersStep permission f =
     (let f1 = (if Action permission = ''read'' \<and> ResourceType permission = ''users''
                then f\<lparr>hasUserRead := True\<rparr> else f)
      in if Action permission = ''write'' \<and> ResourceType permission = ''users''
         then f1\<lparr>hasUserWrite := True\<rparr> else f1)"

definition orgsStep :: "Permission \<Rightarrow> flags \<Rightarrow> flags" where
  "orgsStep permission f =
     (let f1 = (if Action permission = ''read'' \<and> ResourceType permission = ''orgs''
                then f\<lparr>hasOrganizationsRead := True\<rparr> else f)
      in if Action permission = ''write'' \<and> ResourceType permission = ''orgs''
         then f1\<lparr>hasOrganizationsWrite := True\<rparr> else f1)"

text \<open>The body of the outer loop: one authorization record.\<close>

definition authorizationStep :: "string \<Rightarrow> Authorization \<Rightarrow> flags \<Rightarrow> flags" where
  "authorizationStep token authorization f =
     (if authorizationToken authorization = token
      then fold orgsStep (authorizationPermissions authorization)
             (fold usersStep (authorizationPermissions authorization) f)
      else f)"

definition insufficientMessage :: "flags \<Rightarrow> string" where
  "insufficientMessage f =
     ''the provided token does not have sufficient permissions in influxdb hasUserRead: ''
     @ fmtBool (hasUserRead f) @ '', hasUserWrite: '' @ fmtBool (hasUserWrite f)
     @ '', hasOrganizationsRead: '' @ fmtBool (hasOrganizationsRead f)
     @ '', hasOrganizationsWrite: '' @ fmtBool (hasOrganizationsWrite f)"

text \<open>
  \<^verbatim>\<open>isTokenSufficientAccess(ctx, cli, token)\<close>: the query is an event; the result is the
  pair the Go function returns.
\<close>

definition isTokenSufficientAccess ::
  "server \<Rightarrow> Client \<Rightarrow> string \<Rightarrow> trace \<Rightarrow> (bool \<times> error option) \<times> trace" where
  "isTokenSufficientAccess srv cli token w =
     (case GetAuthorizations srv cli (length w) of
        Inl err \<Rightarrow>
          ((False, Some (New ''cannot access authorizations API to check token'')),
           w @ [EvGetAuthorizations cli])
      | Inr authorizations \<Rightarrow>
          (let f = fold (authorizationStep token) authorizations noFlags
           in if hasUserRead f \<and> hasUserWrite f
                 \<and> hasOrganizationsRead f \<and> hasOrganizationsWrite f
              then ((True, None), w @ [EvGetAuthorizations cli])
              else ((False, Some (New (insufficientMessage f))),
                    w @ [EvGetAuthorizations cli])))"

subsection \<open>createClient\<close>

text \<open>
  The constructors of the client library. Each new client is an event; its identity is
  the position of that event in the trace.
\<close>

definition NewClientWithOptions ::
  "string \<Rightarrow> string \<Rightarrow> TLSConfig \<Rightarrow> trace \<Rightarrow> Client \<times> trace" where
  "NewClientWithOptions url token tlsConfig w =
     (let cli = \<lparr>cid = length w, serverURL = url, authToken = token,
                  clientOptions = Some tlsConfig\<rparr>
      in (cli, w @ [EvNewClient cli]))"

definition NewClient :: "string \<Rightarrow> string \<Rightarrow> trace \<Rightarrow> Client \<times> trace" where
  "NewClient url token w =
     (let cli = \<lparr>cid = length w, serverURL = url, authToken = token,
                  clientOptions = None\<rparr>
      in (cli, w @ [EvNewClient cli]))"

text \<open>
  The TLS branch of \<^verbatim>\<open>createClient\<close> up to the options (the lines from
  \<^verbatim>\<open>tlsConfig := &tls.Config{}\<close> to the end of the \<^verbatim>\<open>tls_min_version\<close> lookup).
\<close>

definition bundleTLSConfig :: "libs \<Rightarrow> producer \<Rightarrow> error + TLSConfig" where
  "bundleTLSConfig lib i =
     (if certificate i \<noteq> [] \<or> issuingCA i \<noteq> [] then
        if certificate i \<noteq> [] \<and> privateKey i = [] then
          Inl (New ''found certificate for TLS authentication but no private key'')
        else
          let b0 = \<lparr>Certificate = [], PrivateKey = [], IssuingCA = []\<rparr>;
              b1 = (if certificate i \<noteq> []
                    then b0\<lparr>Certificate := certificate i, PrivateKey := privateKey i\<rparr>
                    else b0);
              certBundle = (if issuingCA i \<noteq> [] then b1\<lparr>IssuingCA := issuingCA i\<rparr> else b1)
          in case ToParsedCertBundle lib certBundle of
               Inl err \<Rightarrow> Inl (Wrap ''failed to parse certificate bundle: '' err)
             | Inr parsedCertBundle \<Rightarrow>
                 (case GetTLSConfig lib parsedCertBundle of
                    (tlsConfig, Some err) \<Rightarrow>
                      Inl (Wrap (''failed to get TLS configuration: tlsConfig:''
                                 @ GoSyntax lib tlsConfig @ '' err:'') err)
                  | (None, None) \<Rightarrow>
                      Inl (New (''failed to get TLS configuration: tlsConfig:''
                                @ GoSyntax lib None @ '' err:%!w(<nil>)''))
                  | (Some tlsConfig, None) \<Rightarrow> Inr tlsConfig)
      else Inr emptyTLSConfig)"

definition tlsClientConfig :: "libs \<Rightarrow> producer \<Rightarrow> error + TLSConfig" where
  "tlsClientConfig lib i =
     (case bundleTLSConfig lib i of
        Inl err \<Rightarrow> Inl err
      | Inr tlsConfig0 \<Rightarrow>
          (let tlsConfig = tlsConfig0\<lparr>InsecureSkipVerify := InsecureTLS i\<rparr>
           in if TLSMinVersion i \<noteq> [] then
                (case TLSLookup lib (TLSMinVersion i) of
                   None \<Rightarrow> Inl (New ''invalid 'tls_min_version' in config'')
                 | Some v \<Rightarrow> Inr (tlsConfig\<lparr>MinVersion := v\<rparr>))
              else Inr (tlsConfig\<lparr>MinVersion := 0\<rparr>)))"

text \<open>
  The first part of \<^verbatim>\<open>createClient\<close>: the client is built with the TLS options when
  \<^verbatim>\<open>i.TLS\<close> is set and with the default options otherwise. Both branches format the
  same URL.
\<close>

definition buildClient :: "libs \<Rightarrow> producer \<Rightarrow> trace \<Rightarrow> error + Client \<times> trace" where
  "buildClient lib i w =
     (if TLS i then
        (case tlsClientConfig lib i of
           Inl err \<Rightarrow> Inl err
         | Inr tlsConfig \<Rightarrow>
             Inr (NewClientWithOptions (''http://'' @ Host i @ '':'' @ Port i)
                    (Token i) tlsConfig w))
      else Inr (NewClient (''http://'' @ Host i @ '':'' @ Port i) (Token i) w))"

text \<open>
  \<^verbatim>\<open>createClient\<close>: build the client, probe the server, check the token's permissions.
  No path closes the client it built.
\<close>

definition createClient ::
  "libs \<Rightarrow> server \<Rightarrow> producer \<Rightarrow> trace \<Rightarrow> (error + Client) \<times> trace" where
  "createClient lib srv i w =
     (case buildClient lib i w of
        Inl err \<Rightarrow> (Inl err, w)
      | Inr (cli, w1) \<Rightarrow>
          (case Ping srv cli (length w1) of
             Some err \<Rightarrow>
               (Inl (Wrap ''error checking cluster status: '' err), w1 @ [EvPing cli])
           | None \<Rightarrow>
               (case isTokenSufficientAccess srv cli (Token i) (w1 @ [EvPing cli]) of
                  ((isSufficientAccess, Some err), w2) \<Rightarrow>
                    (Inl (Wrap ''error getting if provided username is admin: '' err), w2)
                | ((isSufficientAccess, None), w2) \<Rightarrow>
                    if \<not> isSufficientAccess then
                      (Inl (New ''the provided user is missing permissions on the influxDB server''),
                       w2)
                    else (Inr cli, w2))))"

subsection \<open>Connection, Close, secretValues\<close>

definition Lock :: "trace \<Rightarrow> trace" where
  "Lock w = w @ [EvLock]"

definition Unlock :: "trace \<Rightarrow> trace" where
  "Unlock w = w @ [EvUnlock]"

text \<open>\<^verbatim>\<open>Connection\<close> takes no lock: its body starts with the test of \<^verbatim>\<open>Initialized\<close>.\<close>

definition Connection ::
  "libs \<Rightarrow> server \<Rightarrow> producer \<Rightarrow> trace \<Rightarrow> (error + Client) \<times> producer \<times> trace" where
  "Connection lib srv i w =
     (if \<not> Initialized i then (Inl ErrNotInitialized, i, w)
      else case client i of
        Some c \<Rightarrow> (Inr c, i, w)
      | None \<Rightarrow>
          (case createClient lib srv i w of
             (Inl err, w1) \<Rightarrow> (Inl err, i, w1)
           | (Inr cli, w1) \<Rightarrow> (Inr cli, i\<lparr>client := Some cli\<rparr>, w1)))"

text \<open>\<^verbatim>\<open>Close\<close>: the lock is taken first and released by the deferred call.\<close>

definition Close :: "producer \<Rightarrow> trace \<Rightarrow> error option \<times> producer \<times> trace" where
  "Close i w =
     (let w1 = Lock w;
          w2 = (case client i of Some c \<Rightarrow> w1 @ [EvClose c] | None \<Rightarrow> w1)
      in (None, i\<lparr>client := None\<rparr>, Unlock w2))"

text \<open>
  \<^verbatim>\<open>secretValues\<close> builds a map literal: a later entry overwrites an earlier one with
  the same key. It takes no lock and has no other effect.
\<close>

definition secretValues :: "producer \<Rightarrow> trace \<Rightarrow> (string \<rightharpoonup> string) \<times> trace" where
  "secretValues i w =
     ((Map.empty(Token i \<mapsto> ''[token]''))(PemBundle i \<mapsto> ''[pem_bundle]'',
        PemJSON i \<mapsto> ''[pem_json]''), w)"

subsection \<open>Initialize\<close>

text \<open>
  The assignments at the end of either certificate path of \<^verbatim>\<open>Initialize\<close>.
\<close>

definition storeCertBundle :: "CertBundle \<Rightarrow> producer \<Rightarrow> producer" where
  "storeCertBundle certBundle i =
     i\<lparr>certificate := Certificate certBundle, privateKey := PrivateKey certBundle,
       issuingCA := IssuingCA certBundle, TLS := True\<rparr>"

text \<open>
  The second \<^verbatim>\<open>switch\<close> of \<^verbatim>\<open>Initialize\<close>: the JSON form first, the PEM form only when the
  JSON form is empty, nothing when both are.
\<close>

definition assembleCertificates :: "libs \<Rightarrow> producer \<Rightarrow> error + producer" where
  "assembleCertificates lib i =
     (if PemJSON i \<noteq> [] then
        (case ParsePKIJSON lib (PemJSON i) of
           Inl err \<Rightarrow>
             Inl (Wrap ''could not parse given JSON; it must be in the format of the output of the PKI backend certificate issuing command: '' err)
         | Inr parsedCertBundle \<Rightarrow>
             (case ToCertBundle lib parsedCertBundle of
                Inl err \<Rightarrow> Inl (Wrap ''Error marshaling PEM information: '' err)
              | Inr certBundle \<Rightarrow> Inr (storeCertBundle certBundle i)))
      else if PemBundle i \<noteq> [] then
        (case ParsePEMBundle lib (PemBundle i) of
           Inl err \<Rightarrow> Inl (Wrap ''Error parsing the given PEM information: '' err)
         | Inr parsedCertBundle \<Rightarrow>
             (case ToCertBundle lib parsedCertBundle of
                Inl err \<Rightarrow> Inl (Wrap ''Error marshaling PEM information: '' err)
              | Inr certBundle \<Rightarrow> Inr (storeCertBundle certBundle i)))
      else Inr i)"

text \<open>
  The defaults applied after decoding: \<^verbatim>\<open>"5s"\<close> for a nil \<^verbatim>\<open>ConnectTimeoutRaw\<close>,
  \<^verbatim>\<open>"8086"\<close> for an empty \<^verbatim>\<open>Port\<close>.
\<close>

definition applyDefaults :: "producer \<Rightarrow> producer" where
  "applyDefaults i =
     (let i1 = (if ConnectTimeoutRaw i = INil then i\<lparr>ConnectTimeoutRaw := IString ''5s''\<rparr> else i)
      in if Port i1 = [] then i1\<lparr>Port := ''8086''\<rparr> else i1)"

text \<open>
  The body of \<^verbatim>\<open>Initialize\<close> up to \<^verbatim>\<open>i.Initialized = true\<close>: store the raw
  configuration, decode into the struct, apply the defaults, parse the timeout, check
  host and token, assemble the certificates. The result is the error of the first step
  that failed, if any, and the struct as that step left it.
\<close>

definition configure :: "libs \<Rightarrow> InitializeRequest \<Rightarrow> producer \<Rightarrow> error option \<times> producer" where
  "configure lib req i =
     (let i1 = i\<lparr>rawConfig := Config req\<rparr> in
      case WeakDecode lib (Config req) (exportedOf i1) of
        (Some err, d) \<Rightarrow> (Some err, storeExported d i1)
      | (None, d) \<Rightarrow>
          (let i2 = applyDefaults (storeExported d i1) in
           case ParseDurationSecond lib (ConnectTimeoutRaw i2) of
             (t, Some err) \<Rightarrow>
               (Some (Wrap ''invalid connect_timeout: '' err), i2\<lparr>connectTimeout := t\<rparr>)
           | (t, None) \<Rightarrow>
               (let i3 = i2\<lparr>connectTimeout := t\<rparr> in
                if Host i3 = [] then (Some (New ''host cannot be empty''), i3)
                else if Token i3 = [] then (Some (New ''token cannot be empty''), i3)
                else case assembleCertificates lib i3 of
                  Inl err \<Rightarrow> (Some err, i3)
                | Inr i4 \<Rightarrow> (None, i4\<lparr>Initialized := True\<rparr>))))"

text \<open>
  The body of \<^verbatim>\<open>Initialize\<close> between taking the lock and the deferred release: the
  steps above, then the connection check when the request asks for it.
\<close>

definition InitializeLocked ::
  "libs \<Rightarrow> server \<Rightarrow> InitializeRequest \<Rightarrow> producer \<Rightarrow> trace
     \<Rightarrow> (error + InitializeResponse) \<times> producer \<times> trace" where
  "InitializeLocked lib srv req i w =
     (case configure lib req i of
        (Some err, i1) \<Rightarrow> (Inl err, i1, w)
      | (None, i1) \<Rightarrow>
          if VerifyConnection req then
            (case Connection lib srv i1 w of
               (Inl err, i2, w1) \<Rightarrow>
                 (Inl (Wrap ''error verifying connection: '' err), i2, w1)
             | (Inr c, i2, w1) \<Rightarrow> (Inr (InitializeResponse (Config req)), i2, w1))
          else (Inr (InitializeResponse (Config req)), i1, w))"

definition Initialize ::
  "libs \<Rightarrow> server \<Rightarrow> InitializeRequest \<Rightarrow> producer \<Rightarrow> trace
     \<Rightarrow> (error + InitializeResponse) \<times> producer \<times> trace" where
  "Initialize lib srv req i w =
     (case InitializeLocked lib srv req i (Lock w) of
        (r, i1, w1) \<Rightarrow> (r, i1, Unlock w1))"

subsection \<open>Notions of the specification\<close>

text \<open>
  A token is granted a permission by a list of authorization records when some record
  with exactly that token holds a permission with that action and resource type.
\<close>

definition grants :: "Authorization list \<Rightarrow> string \<Rightarrow> string \<Rightarrow> string \<Rightarrow> bool" where
  "grants authorizations token action resource =
     (\<exists>a \<in> set authorizations. authorizationToken a = token \<and>
        (\<exists>p \<in> set (authorizationPermissions a). Action p = action \<and> ResourceType p = resource))"

text \<open>The events of a trace that are not the mutex's.\<close>

definition networkEvents :: "trace \<Rightarrow> trace" where
  "networkEvents w = filter (\<lambda>e. e \<noteq> EvLock \<and> e \<noteq> EvUnlock) w"

text \<open>The zero value of the struct: a producer before its first \<^verbatim>\<open>Initialize\<close>.\<close>

definition zeroProducer :: producer where
  "zeroProducer = \<lparr>Host = [], Token = [], Port = [], TLS = False, InsecureTLS = False,
     ConnectTimeoutRaw = INil, TLSMinVersion = [], PemBundle = [], PemJSON = [],
     DefaultBucket = [], Organization = [], Initialized = False, Type = [],
     connectTimeout = 0, certificate = [], privateKey = [], issuingCA = [],
     rawConfig = Map.empty, client = None\<rparr>"

subsection \<open>An example environment\<close>

text \<open>
  Concrete libraries, servers and requests on which the theorems below are instantiated.
  The example libraries decode the keys the plugin documents, parse the one duration
  \<^verbatim>\<open>"5s"\<close>, and know three certificate inputs; they stand for the real libraries only
  on the inputs used here.
\<close>

definition stringKey :: "config \<Rightarrow> string \<Rightarrow> string \<Rightarrow> string" where
  "stringKey c k old = (case c k of Some (IString s) \<Rightarrow> s | _ \<Rightarrow> old)"

definition boolKey :: "config \<Rightarrow> string \<Rightarrow> bool \<Rightarrow> bool" where
  "boolKey c k old = (case c k of Some (IBool b) \<Rightarrow> b | _ \<Rightarrow> old)"

definition exampleDecode :: "config \<Rightarrow> exported \<Rightarrow> error option \<times> exported" where
  "exampleDecode c d =
     (None, d\<lparr>Host := stringKey c ''host'' (Host d), Token := stringKey c ''token'' (Token d),
        Port := stringKey c ''port'' (Port d), TLS := boolKey c ''tls'' (TLS d),
        InsecureTLS := boolKey c ''insecure_tls'' (InsecureTLS d),
        ConnectTimeoutRaw :=
          (case c ''connect_timeout'' of Some v \<Rightarrow> v | None \<Rightarrow> ConnectTimeoutRaw d),
        TLSMinVersion := stringKey c ''tls_min_version'' (TLSMinVersion d),
        PemBundle := stringKey c ''pem_bundle'' (PemBundle d),
        PemJSON := stringKey c ''pem_json'' (PemJSON d),
        DefaultBucket := stringKey c ''default_bucket'' (DefaultBucket d),
        Organization := stringKey c ''organization'' (Organization d)\<rparr>)"

definition exampleLibs :: libs where
  "exampleLibs =
     \<lparr>WeakDecode = exampleDecode,
      ParseDurationSecond =
        (\<lambda>v. if v = IString ''5s'' then (5000000000, None)
             else (0, Some (New ''time: invalid duration''))),
      ParsePKIJSON =
        (\<lambda>s. if s = ''{pki}'' then Inr (ParsedCertBundle ''CERT-J'' ''KEY-J'' ''CA-J'')
             else Inl (New ''invalid character'')),
      ParsePEMBundle =
        (\<lambda>s. if s = ''PEM'' then Inr (ParsedCertBundle ''CERT-P'' ''KEY-P'' ''CA-P'')
             else if s = ''PEM-CERT-ONLY'' then Inr (ParsedCertBundle ''CERT-Q'' [] [])
             else Inl (New ''no data found'')),
      ToCertBundle =
        (\<lambda>b. case b of ParsedCertBundle c k a \<Rightarrow>
               Inr \<lparr>Certificate = c, PrivateKey = k, IssuingCA = a\<rparr>),
      ToParsedCertBundle =
        (\<lambda>b. Inr (ParsedCertBundle (Certificate b) (PrivateKey b) (IssuingCA b))),
      GetTLSConfig = (\<lambda>b. (Some (emptyTLSConfig\<lparr>KeyMaterial := Some b\<rparr>), None)),
      TLSLookup = [''tls10'' \<mapsto> 0x0301, ''tls11'' \<mapsto> 0x0302, ''tls12'' \<mapsto> 0x0303,
                   ''tls13'' \<mapsto> 0x0304],
      GoSyntax = (\<lambda>c. ''&tls.Config{}'')\<rparr>"

text \<open>A server that answers every probe and returns the given records.\<close>

definition exampleServer :: "Authorization list \<Rightarrow> server" where
  "exampleServer authorizations =
     \<lparr>Ping = (\<lambda>c n. None), GetAuthorizations = (\<lambda>c n. Inr authorizations)\<rparr>"

definition perm :: "string \<Rightarrow> string \<Rightarrow> Permission" where
  "perm a r = \<lparr>Action = a, ResourceType = r\<rparr>"

text \<open>
  \<open>tkn-1\<close> with all four permissions, spread over two records; with three of them; and
  with the two read permissions only.
\<close>

definition fullAccess :: "Authorization list" where
  "fullAccess =
     [\<lparr>authorizationToken = ''tkn-1'',
        authorizationPermissions = [perm ''read'' ''users'', perm ''write'' ''users'']\<rparr>,
      \<lparr>authorizationToken = ''other'',
        authorizationPermissions = [perm ''read'' ''buckets'']\<rparr>,
      \<lparr>authorizationToken = ''tkn-1'',
        authorizationPermissions = [perm ''write'' ''orgs'', perm ''read'' ''orgs'']\<rparr>]"

definition threeOfFour :: "Authorization list" where
  "threeOfFour =
     [\<lparr>authorizationToken = ''tkn-1'',
        authorizationPermissions =
          [perm ''read'' ''users'', perm ''write'' ''users'', perm ''read'' ''orgs'']\<rparr>,
      \<lparr>authorizationToken = ''TKN-1'',
        authorizationPermissions = [perm ''write'' ''orgs'']\<rparr>]"

definition readOnly :: "Authorization list" where
  "readOnly =
     [\<lparr>authorizationToken = ''tkn-1'',
        authorizationPermissions = [perm ''read'' ''users'', perm ''read'' ''orgs'']\<rparr>]"

text \<open>All of the four permissions but one, in a single record.\<close>

definition allButOne :: "string \<Rightarrow> string \<Rightarrow> Authorization list" where
  "allButOne a r =
     [\<lparr>authorizationToken = ''tkn-1'',
        authorizationPermissions =
          filter (\<lambda>p. p \<noteq> perm a r)
            [perm ''read'' ''users'', perm ''write'' ''users'',
             perm ''read'' ''orgs'', perm ''write'' ''orgs'']\<rparr>]"

text \<open>The configuration of the spec's scenario, and the producer it initializes.\<close>

definition exampleRequest :: InitializeRequest where
  "exampleRequest =
     \<lparr>Config = [''host'' \<mapsto> IString ''127.0.0.1'', ''token'' \<mapsto> IString ''tkn-1'',
                 ''organization'' \<mapsto> IString ''ACME'',
                 ''default_bucket'' \<mapsto> IString ''telegraf''],
      VerifyConnection = False\<rparr>"

definition exampleProducer :: producer where
  "exampleProducer =
     zeroProducer\<lparr>Host := ''127.0.0.1'', Token := ''tkn-1'', Port := ''8086'',
       ConnectTimeoutRaw := IString ''5s'', DefaultBucket := ''telegraf'',
       Organization := ''ACME'', Initialized := True, connectTimeout := 5000000000,
       rawConfig := Config exampleRequest\<rparr>"

text \<open>The client that \<open>exampleProducer\<close> builds on the empty trace.\<close>

definition exampleClient :: Client where
  "exampleClient = \<lparr>cid = 0, serverURL = ''http://127.0.0.1:8086'', authToken = ''tkn-1'',
     clientOptions = None\<rparr>"

text \<open>The client that \<open>exampleProducer\<close> builds once its TLS flag is set.\<close>

definition exampleTLSClient :: Client where
  "exampleTLSClient = exampleClient\<lparr>clientOptions := Some emptyTLSConfig\<rparr>"

text \<open>
  A request whose \<^verbatim>\<open>connect_timeout\<close> is not a duration, and what the example decoder
  makes of it on a producer that was never initialized.
\<close>

definition badRequest :: InitializeRequest where
  "badRequest =
     \<lparr>Config = [''host'' \<mapsto> IString ''127.0.0.1'', ''token'' \<mapsto> IString ''tkn-1'',
                 ''connect_timeout'' \<mapsto> IString ''bogus''],
      VerifyConnection = False\<rparr>"

definition badDecoded :: exported where
  "badDecoded = \<lparr>Host = ''127.0.0.1'', Token = ''tkn-1'', Port = [], TLS = False,
     InsecureTLS = False, ConnectTimeoutRaw = IString ''bogus'', TLSMinVersion = [],
     PemBundle = [], PemJSON = [], DefaultBucket = [], Organization = [],
     Initialized = False, Type = []\<rparr>"







section \<open>Properties\<close>

subsection \<open>The scan of the authorization records\<close>

lemma usersStep_fields:
  "hasUserRead (usersStep p f) =
     (hasUserRead f \<or> (Action p = ''read'' \<and> ResourceType p = ''users''))"
  "hasUserWrite (usersStep p f) =
     (hasUserWrite f \<or> (Action p = ''write'' \<and> ResourceType p = ''users''))"
  "hasOrganizationsRead (usersStep p f) = hasOrganizationsRead f"
  "hasOrganizationsWrite (usersStep p f) = hasOrganizationsWrite f"
  by (auto simp: usersStep_def Let_def)

lemma orgsStep_fields:
  "hasUserRead (orgsStep p f) = hasUserRead f"
  "hasUserWrite (orgsStep p f) = hasUserWrite f"
  "hasOrganizationsRead (orgsStep p f) =
     (hasOrganizationsRead f \<or> (Action p = ''read'' \<and> ResourceType p = ''orgs''))"
  "hasOrganizationsWrite (orgsStep p f) =
     (hasOrganizationsWrite f \<or> (Action p = ''write'' \<and> ResourceType p = ''orgs''))"
  by (auto simp: orgsStep_def Let_def)

lemma fold_usersStep_fields:
  "hasUserRead (fold usersStep ps f) =
     (hasUserRead f \<or> (\<exists>p \<in> set ps. Action p = ''read'' \<and> ResourceType p = ''users''))"
  "hasUserWrite (fold usersStep ps f) =
     (hasUserWrite f \<or> (\<exists>p \<in> set ps. Action p = ''write'' \<and> ResourceType p = ''users''))"
  "hasOrganizationsRead (fold usersStep ps f) = hasOrganizationsRead f"
  "hasOrganizationsWrite (fold usersStep ps f) = hasOrganizationsWrite f"
  by (induction ps arbitrary: f; auto simp: usersStep_fields)+

lemma fold_orgsStep_fields:
  "hasUserRead (fold orgsStep ps f) = hasUserRead f"
  "hasUserWrite (fold orgsStep ps f) = hasUserWrite f"
  "hasOrganizationsRead (fold orgsStep ps f) =
     (hasOrganizationsRead f \<or> (\<exists>p \<in> set ps. Action p = ''read'' \<and> ResourceType p = ''orgs''))"
  "hasOrganizationsWrite (fold orgsStep ps f) =
     (hasOrganizationsWrite f \<or> (\<exists>p \<in> set ps. Action p = ''write'' \<and> ResourceType p = ''orgs''))"
  by (induction ps arbitrary: f; auto simp: orgsStep_fields)+

lemma authorizationStep_fields:
  "hasUserRead (authorizationStep tok a f) =
     (hasUserRead f \<or> grants [a] tok ''read'' ''users'')"
  "hasUserWrite (authorizationStep tok a f) =
     (hasUserWrite f \<or> grants [a] tok ''write'' ''users'')"
  "hasOrganizationsRead (authorizationStep tok a f) =
     (hasOrganizationsRead f \<or> grants [a] tok ''read'' ''orgs'')"
  "hasOrganizationsWrite (authorizationStep tok a f) =
     (hasOrganizationsWrite f \<or> grants [a] tok ''write'' ''orgs'')"
  by (simp_all add: authorizationStep_def grants_def fold_usersStep_fields
        fold_orgsStep_fields)

lemma fold_authorizationStep_fields:
  "hasUserRead (fold (authorizationStep tok) as f) =
     (hasUserRead f \<or> grants as tok ''read'' ''users'')"
  "hasUserWrite (fold (authorizationStep tok) as f) =
     (hasUserWrite f \<or> grants as tok ''write'' ''users'')"
  "hasOrganizationsRead (fold (authorizationStep tok) as f) =
     (hasOrganizationsRead f \<or> grants as tok ''read'' ''orgs'')"
  "hasOrganizationsWrite (fold (authorizationStep tok) as f) =
     (hasOrganizationsWrite f \<or> grants as tok ''write'' ''orgs'')"
  by (induction as arbitrary: f; auto simp: authorizationStep_fields grants_def)+

lemma scan_fields:
  "hasUserRead (fold (authorizationStep tok) as noFlags) = grants as tok ''read'' ''users''"
  "hasUserWrite (fold (authorizationStep tok) as noFlags) = grants as tok ''write'' ''users''"
  "hasOrganizationsRead (fold (authorizationStep tok) as noFlags) =
     grants as tok ''read'' ''orgs''"
  "hasOrganizationsWrite (fold (authorizationStep tok) as noFlags) =
     grants as tok ''write'' ''orgs''"
  by (simp_all add: fold_authorizationStep_fields noFlags_def)

subsection \<open>C1: when the verifier accepts\<close>

text \<open>
  C1. \<^verbatim>\<open>isTokenSufficientAccess\<close> returns \<^verbatim>\<open>(true, nil)\<close> if and only if the authorizations
  query succeeds and, among the records whose token equals the supplied token exactly,
  each of read-users, write-users, read-orgs and write-orgs is held by at least one
  record. Each permission may come from a different record: the flags accumulate.
\<close>

theorem isTokenSufficientAccess_accepts_iff:
  "fst (isTokenSufficientAccess srv cli token w) = (True, None) \<longleftrightarrow>
     (\<exists>authorizations. GetAuthorizations srv cli (length w) = Inr authorizations \<and>
        grants authorizations token ''read'' ''users'' \<and>
        grants authorizations token ''write'' ''users'' \<and>
        grants authorizations token ''read'' ''orgs'' \<and>
        grants authorizations token ''write'' ''orgs'')"
  by (cases "GetAuthorizations srv cli (length w)")
     (auto simp: isTokenSufficientAccess_def Let_def scan_fields)

subsection \<open>What isTokenSufficientAccess and createClient return\<close>

lemma isTokenSufficientAccess_trace:
  "snd (isTokenSufficientAccess srv cli token w) = w @ [EvGetAuthorizations cli]"
  by (simp add: isTokenSufficientAccess_def Let_def split: sum.splits)

lemma isTokenSufficientAccess_Inr:
  "GetAuthorizations srv cli (length w) = Inr as \<Longrightarrow>
   fst (isTokenSufficientAccess srv cli token w) =
     (if grants as token ''read'' ''users'' \<and> grants as token ''write'' ''users''
         \<and> grants as token ''read'' ''orgs'' \<and> grants as token ''write'' ''orgs''
      then (True, None)
      else (False,
            Some (New (insufficientMessage (fold (authorizationStep token) as noFlags)))))"
  by (simp add: isTokenSufficientAccess_def Let_def scan_fields)

lemma isTokenSufficientAccess_false:
  "fst (fst (isTokenSufficientAccess srv cli token w)) = False \<Longrightarrow>
   \<exists>err. snd (fst (isTokenSufficientAccess srv cli token w)) = Some err"
  by (auto simp: isTokenSufficientAccess_def Let_def split: sum.splits if_splits)

lemma insufficientMessage_scan:
  "insufficientMessage (fold (authorizationStep token) as noFlags) =
     ''the provided token does not have sufficient permissions in influxdb hasUserRead: ''
     @ fmtBool (grants as token ''read'' ''users'')
     @ '', hasUserWrite: '' @ fmtBool (grants as token ''write'' ''users'')
     @ '', hasOrganizationsRead: '' @ fmtBool (grants as token ''read'' ''orgs'')
     @ '', hasOrganizationsWrite: '' @ fmtBool (grants as token ''write'' ''orgs'')"
  by (simp add: insufficientMessage_def scan_fields)

lemma buildClient_Inr:
  "buildClient lib i w = Inr (cli, w1) \<Longrightarrow>
     w1 = w @ [EvNewClient cli] \<and> cid cli = length w \<and>
     serverURL cli = ''http://'' @ Host i @ '':'' @ Port i \<and> authToken cli = Token i \<and>
     (clientOptions cli = None \<longleftrightarrow> \<not> TLS i)"
  by (auto simp: buildClient_def NewClient_def NewClientWithOptions_def Let_def
           split: if_splits sum.splits)

text \<open>The errors that building the client can end in.\<close>

lemma bundleTLSConfig_errors:
  "bundleTLSConfig lib i = Inl e \<Longrightarrow>
     e = New ''found certificate for TLS authentication but no private key'' \<or>
     (\<exists>s e'. e = Wrap s e') \<or>
     (\<exists>s. e = New (''failed to get TLS configuration: tlsConfig:'' @ s))"
  unfolding bundleTLSConfig_def Let_def
  by (simp split: if_splits sum.splits prod.splits option.splits) blast+

lemma tlsClientConfig_errors:
  assumes "tlsClientConfig lib i = Inl e"
  shows "e = New ''found certificate for TLS authentication but no private key'' \<or>
     (\<exists>s e'. e = Wrap s e') \<or>
     (\<exists>s. e = New (''failed to get TLS configuration: tlsConfig:'' @ s)) \<or>
     e = New ''invalid 'tls_min_version' in config''"
proof (cases "bundleTLSConfig lib i")
  case (Inl e')
  with assms have "e = e'" by (simp add: tlsClientConfig_def)
  with bundleTLSConfig_errors [OF Inl] show ?thesis by blast
next
  case (Inr c)
  with assms have "e = New ''invalid 'tls_min_version' in config''"
    by (simp add: tlsClientConfig_def Let_def split: if_splits option.splits)
  then show ?thesis by blast
qed

lemma buildClient_errors:
  assumes "buildClient lib i w = Inl e"
  shows "e = New ''found certificate for TLS authentication but no private key'' \<or>
     (\<exists>s e'. e = Wrap s e') \<or>
     (\<exists>s. e = New (''failed to get TLS configuration: tlsConfig:'' @ s)) \<or>
     e = New ''invalid 'tls_min_version' in config''"
proof -
  from assms have "tlsClientConfig lib i = Inl e"
    by (simp add: buildClient_def split: if_splits sum.splits)
  then show ?thesis by (rule tlsClientConfig_errors)
qed

lemma buildClient_not_missing:
  "buildClient lib i w \<noteq>
     Inl (New ''the provided user is missing permissions on the influxDB server'')"
proof
  assume "buildClient lib i w =
     Inl (New ''the provided user is missing permissions on the influxDB server'')"
  from buildClient_errors [OF this] show False by simp
qed

lemma createClient_build_fails:
  "buildClient lib i w = Inl err \<Longrightarrow> createClient lib srv i w = (Inl err, w)"
  by (simp add: createClient_def)

text \<open>
  Once the client is built, \<^verbatim>\<open>createClient\<close> has three outcomes; the branch on
  \<^verbatim>\<open>!isSufficientAccess\<close> is not among them.
\<close>

lemma createClient_after_build:
  "buildClient lib i w = Inr (cli, w1) \<Longrightarrow>
   createClient lib srv i w =
     (case Ping srv cli (length w1) of
        Some err \<Rightarrow> (Inl (Wrap ''error checking cluster status: '' err), w1 @ [EvPing cli])
      | None \<Rightarrow>
         (case fst (isTokenSufficientAccess srv cli (Token i) (w1 @ [EvPing cli])) of
            (ok, Some err) \<Rightarrow>
              (Inl (Wrap ''error getting if provided username is admin: '' err),
               w1 @ [EvPing cli, EvGetAuthorizations cli])
          | (ok, None) \<Rightarrow> (Inr cli, w1 @ [EvPing cli, EvGetAuthorizations cli])))"
  using isTokenSufficientAccess_false [of srv cli "Token i" "w1 @ [EvPing cli]"]
        isTokenSufficientAccess_trace [of srv cli "Token i" "w1 @ [EvPing cli]"]
  by (cases "isTokenSufficientAccess srv cli (Token i) (w1 @ [EvPing cli])")
     (auto simp: createClient_def split: option.splits prod.splits)

subsection \<open>The example environment, evaluated\<close>

lemma example_grants_full:
  "grants fullAccess ''tkn-1'' ''read'' ''users''"
  "grants fullAccess ''tkn-1'' ''write'' ''users''"
  "grants fullAccess ''tkn-1'' ''read'' ''orgs''"
  "grants fullAccess ''tkn-1'' ''write'' ''orgs''"
  by (simp_all add: grants_def fullAccess_def perm_def)

lemma example_grants_three:
  "grants threeOfFour ''tkn-1'' ''read'' ''users''"
  "grants threeOfFour ''tkn-1'' ''write'' ''users''"
  "grants threeOfFour ''tkn-1'' ''read'' ''orgs''"
  "\<not> grants threeOfFour ''tkn-1'' ''write'' ''orgs''"
  by (simp_all add: grants_def threeOfFour_def perm_def)

lemma example_grants_readOnly:
  "grants readOnly ''tkn-1'' ''read'' ''users''"
  "\<not> grants readOnly ''tkn-1'' ''write'' ''users''"
  "grants readOnly ''tkn-1'' ''read'' ''orgs''"
  "\<not> grants readOnly ''tkn-1'' ''write'' ''orgs''"
  by (simp_all add: grants_def readOnly_def perm_def)

lemma example_grants_allButOne:
  "grants (allButOne a r) ''tkn-1'' a' r' =
     ((a', r') \<noteq> (a, r) \<and>
      (a', r') \<in> {(''read'', ''users''), (''write'', ''users''),
                  (''read'', ''orgs''), (''write'', ''orgs'')})"
  by (auto simp: grants_def allButOne_def perm_def)

lemma example_three_of_four:
  "length (filter (\<lambda>b. b)
     [grants (allButOne ''read'' ''users'') ''tkn-1'' ''read'' ''users'',
      grants (allButOne ''read'' ''users'') ''tkn-1'' ''write'' ''users'',
      grants (allButOne ''read'' ''users'') ''tkn-1'' ''read'' ''orgs'',
      grants (allButOne ''read'' ''users'') ''tkn-1'' ''write'' ''orgs'']) = 3"
  "length (filter (\<lambda>b. b)
     [grants (allButOne ''write'' ''users'') ''tkn-1'' ''read'' ''users'',
      grants (allButOne ''write'' ''users'') ''tkn-1'' ''write'' ''users'',
      grants (allButOne ''write'' ''users'') ''tkn-1'' ''read'' ''orgs'',
      grants (allButOne ''write'' ''users'') ''tkn-1'' ''write'' ''orgs'']) = 3"
  "length (filter (\<lambda>b. b)
     [grants (allButOne ''read'' ''orgs'') ''tkn-1'' ''read'' ''users'',
      grants (allButOne ''read'' ''orgs'') ''tkn-1'' ''write'' ''users'',
      grants (allButOne ''read'' ''orgs'') ''tkn-1'' ''read'' ''orgs'',
      grants (allButOne ''read'' ''orgs'') ''tkn-1'' ''write'' ''orgs'']) = 3"
  "length (filter (\<lambda>b. b)
     [grants (allButOne ''write'' ''orgs'') ''tkn-1'' ''read'' ''users'',
      grants (allButOne ''write'' ''orgs'') ''tkn-1'' ''write'' ''users'',
      grants (allButOne ''write'' ''orgs'') ''tkn-1'' ''read'' ''orgs'',
      grants (allButOne ''write'' ''orgs'') ''tkn-1'' ''write'' ''orgs'']) = 3"
  by (simp_all add: example_grants_allButOne)

lemma example_fields:
  "Initialized exampleProducer" "client exampleProducer = None"
  "\<not> TLS exampleProducer" "Token exampleProducer = ''tkn-1''"
  "Host exampleProducer = ''127.0.0.1''" "Port exampleProducer = ''8086''"
  by (simp_all add: exampleProducer_def zeroProducer_def)

lemma example_build:
  "buildClient lib exampleProducer [] = Inr (exampleClient, [EvNewClient exampleClient])"
  by (simp add: buildClient_def NewClient_def Let_def exampleClient_def example_fields)

lemma example_build_TLS:
  "buildClient exampleLibs (exampleProducer\<lparr>TLS := True\<rparr>) [] =
     Inr (exampleTLSClient, [EvNewClient exampleTLSClient])"
  by (simp add: buildClient_def tlsClientConfig_def bundleTLSConfig_def
        NewClientWithOptions_def Let_def exampleTLSClient_def exampleClient_def
        exampleProducer_def zeroProducer_def emptyTLSConfig_def)

lemma example_server:
  "Ping (exampleServer as) c n = None"
  "GetAuthorizations (exampleServer as) c n = Inr as"
  by (simp_all add: exampleServer_def)

lemma example_createClient_full:
  "createClient lib (exampleServer fullAccess) exampleProducer [] =
     (Inr exampleClient,
      [EvNewClient exampleClient, EvPing exampleClient, EvGetAuthorizations exampleClient])"
  by (simp add: createClient_after_build [OF example_build] example_server
        isTokenSufficientAccess_Inr example_grants_full example_fields)

lemma example_createClient_readOnly:
  "createClient lib (exampleServer readOnly) exampleProducer [] =
     (Inl (Wrap ''error getting if provided username is admin: ''
        (New ''the provided token does not have sufficient permissions in influxdb hasUserRead: true, hasUserWrite: false, hasOrganizationsRead: true, hasOrganizationsWrite: false'')),
      [EvNewClient exampleClient, EvPing exampleClient, EvGetAuthorizations exampleClient])"
  by (simp add: createClient_after_build [OF example_build] example_server
        isTokenSufficientAccess_Inr example_grants_readOnly example_fields
        insufficientMessage_scan fmtBool_def)

lemma example_createClient_TLS:
  "createClient exampleLibs (exampleServer fullAccess) (exampleProducer\<lparr>TLS := True\<rparr>) [] =
     (Inr exampleTLSClient,
      [EvNewClient exampleTLSClient, EvPing exampleTLSClient,
       EvGetAuthorizations exampleTLSClient])"
  by (simp add: createClient_after_build [OF example_build_TLS] example_server
        isTokenSufficientAccess_Inr example_grants_full example_fields)

subsection \<open>C8: three of the four permissions\<close>

text \<open>
  C8. When the records matching the token grant exactly three of the four permissions,
  \<^verbatim>\<open>isTokenSufficientAccess\<close> returns \<^verbatim>\<open>false\<close> with an error whose message lists the
  four flags one by one, \<^verbatim>\<open>false\<close> for the missing permission and \<^verbatim>\<open>true\<close> for the
  other three.
\<close>

theorem isTokenSufficientAccess_three_of_four:
  assumes "GetAuthorizations srv cli (length w) = Inr as"
      and "length (filter (\<lambda>b. b)
             [grants as token ''read'' ''users'', grants as token ''write'' ''users'',
              grants as token ''read'' ''orgs'', grants as token ''write'' ''orgs'']) = 3"
  shows "\<exists>msg. fst (isTokenSufficientAccess srv cli token w) = (False, Some (New msg)) \<and>
     msg = ''the provided token does not have sufficient permissions in influxdb hasUserRead: ''
         @ fmtBool (grants as token ''read'' ''users'')
         @ '', hasUserWrite: '' @ fmtBool (grants as token ''write'' ''users'')
         @ '', hasOrganizationsRead: '' @ fmtBool (grants as token ''read'' ''orgs'')
         @ '', hasOrganizationsWrite: '' @ fmtBool (grants as token ''write'' ''orgs'') \<and>
     (\<not> grants as token ''read'' ''users'' \<longrightarrow> msg =
        ''the provided token does not have sufficient permissions in influxdb hasUserRead: false, hasUserWrite: true, hasOrganizationsRead: true, hasOrganizationsWrite: true'') \<and>
     (\<not> grants as token ''write'' ''users'' \<longrightarrow> msg =
        ''the provided token does not have sufficient permissions in influxdb hasUserRead: true, hasUserWrite: false, hasOrganizationsRead: true, hasOrganizationsWrite: true'') \<and>
     (\<not> grants as token ''read'' ''orgs'' \<longrightarrow> msg =
        ''the provided token does not have sufficient permissions in influxdb hasUserRead: true, hasUserWrite: true, hasOrganizationsRead: false, hasOrganizationsWrite: true'') \<and>
     (\<not> grants as token ''write'' ''orgs'' \<longrightarrow> msg =
        ''the provided token does not have sufficient permissions in influxdb hasUserRead: true, hasUserWrite: true, hasOrganizationsRead: true, hasOrganizationsWrite: false'')"
proof -
  obtain ur uw ore ow where d:
    "ur = grants as token ''read'' ''users''" "uw = grants as token ''write'' ''users''"
    "ore = grants as token ''read'' ''orgs''" "ow = grants as token ''write'' ''orgs''"
    by simp
  from assms(2) have three:
    "(\<not> ur \<and> uw \<and> ore \<and> ow) \<or> (ur \<and> \<not> uw \<and> ore \<and> ow) \<or>
     (ur \<and> uw \<and> \<not> ore \<and> ow) \<or> (ur \<and> uw \<and> ore \<and> \<not> ow)"
    unfolding d [symmetric] by (cases ur; cases uw; cases ore; cases ow; simp)
  have r: "fst (isTokenSufficientAccess srv cli token w) =
     (False, Some (New (insufficientMessage (fold (authorizationStep token) as noFlags))))"
    using three by (auto simp: isTokenSufficientAccess_Inr [OF assms(1)] d)
  show ?thesis
    unfolding r insufficientMessage_scan d [symmetric]
    using three by (elim disjE; simp add: fmtBool_def)
qed

theorem isTokenSufficientAccess_three_of_four_witness:
  "length (filter (\<lambda>b. b)
     [grants (allButOne ''read'' ''users'') ''tkn-1'' ''read'' ''users'',
      grants (allButOne ''read'' ''users'') ''tkn-1'' ''write'' ''users'',
      grants (allButOne ''read'' ''users'') ''tkn-1'' ''read'' ''orgs'',
      grants (allButOne ''read'' ''users'') ''tkn-1'' ''write'' ''orgs'']) = 3 \<and>
   fst (isTokenSufficientAccess (exampleServer (allButOne ''read'' ''users'')) exampleClient
          ''tkn-1'' []) =
     (False, Some (New ''the provided token does not have sufficient permissions in influxdb hasUserRead: false, hasUserWrite: true, hasOrganizationsRead: true, hasOrganizationsWrite: true'')) \<and>
   fst (isTokenSufficientAccess (exampleServer (allButOne ''write'' ''users'')) exampleClient
          ''tkn-1'' []) =
     (False, Some (New ''the provided token does not have sufficient permissions in influxdb hasUserRead: true, hasUserWrite: false, hasOrganizationsRead: true, hasOrganizationsWrite: true'')) \<and>
   fst (isTokenSufficientAccess (exampleServer (allButOne ''read'' ''orgs'')) exampleClient
          ''tkn-1'' []) =
     (False, Some (New ''the provided token does not have sufficient permissions in influxdb hasUserRead: true, hasUserWrite: true, hasOrganizationsRead: false, hasOrganizationsWrite: true'')) \<and>
   fst (isTokenSufficientAccess (exampleServer (allButOne ''write'' ''orgs'')) exampleClient
          ''tkn-1'' []) =
     (False, Some (New ''the provided token does not have sufficient permissions in influxdb hasUserRead: true, hasUserWrite: true, hasOrganizationsRead: true, hasOrganizationsWrite: false'')) \<and>
   fst (isTokenSufficientAccess (exampleServer threeOfFour) exampleClient ''tkn-1'' []) =
     (False, Some (New ''the provided token does not have sufficient permissions in influxdb hasUserRead: true, hasUserWrite: true, hasOrganizationsRead: true, hasOrganizationsWrite: false''))"
proof -
  have a: "\<And>as. GetAuthorizations (exampleServer as) exampleClient (length ([] :: trace)) = Inr as"
    by (simp add: example_server)
  have n: "length (filter (\<lambda>b. b)
     [grants threeOfFour ''tkn-1'' ''read'' ''users'',
      grants threeOfFour ''tkn-1'' ''write'' ''users'',
      grants threeOfFour ''tkn-1'' ''read'' ''orgs'',
      grants threeOfFour ''tkn-1'' ''write'' ''orgs'']) = 3"
    by (simp add: example_grants_three)
  have g: "\<not> grants (allButOne ''read'' ''users'') ''tkn-1'' ''read'' ''users''"
    "\<not> grants (allButOne ''write'' ''users'') ''tkn-1'' ''write'' ''users''"
    "\<not> grants (allButOne ''read'' ''orgs'') ''tkn-1'' ''read'' ''orgs''"
    "\<not> grants (allButOne ''write'' ''orgs'') ''tkn-1'' ''write'' ''orgs''"
    by (simp_all add: example_grants_allButOne)
  have "fst (isTokenSufficientAccess (exampleServer (allButOne ''read'' ''users'')) exampleClient
          ''tkn-1'' []) =
     (False, Some (New ''the provided token does not have sufficient permissions in influxdb hasUserRead: false, hasUserWrite: true, hasOrganizationsRead: true, hasOrganizationsWrite: true''))"
    using isTokenSufficientAccess_three_of_four [OF a example_three_of_four(1)] g(1) by auto
  moreover
  have "fst (isTokenSufficientAccess (exampleServer (allButOne ''write'' ''users'')) exampleClient
          ''tkn-1'' []) =
     (False, Some (New ''the provided token does not have sufficient permissions in influxdb hasUserRead: true, hasUserWrite: false, hasOrganizationsRead: true, hasOrganizationsWrite: true''))"
    using isTokenSufficientAccess_three_of_four [OF a example_three_of_four(2)] g(2) by auto
  moreover
  have "fst (isTokenSufficientAccess (exampleServer (allButOne ''read'' ''orgs'')) exampleClient
          ''tkn-1'' []) =
     (False, Some (New ''the provided token does not have sufficient permissions in influxdb hasUserRead: true, hasUserWrite: true, hasOrganizationsRead: false, hasOrganizationsWrite: true''))"
    using isTokenSufficientAccess_three_of_four [OF a example_three_of_four(3)] g(3) by auto
  moreover
  have "fst (isTokenSufficientAccess (exampleServer (allButOne ''write'' ''orgs'')) exampleClient
          ''tkn-1'' []) =
     (False, Some (New ''the provided token does not have sufficient permissions in influxdb hasUserRead: true, hasUserWrite: true, hasOrganizationsRead: true, hasOrganizationsWrite: false''))"
    using isTokenSufficientAccess_three_of_four [OF a example_three_of_four(4)] g(4) by auto
  moreover
  have "fst (isTokenSufficientAccess (exampleServer threeOfFour) exampleClient ''tkn-1'' []) =
     (False, Some (New ''the provided token does not have sufficient permissions in influxdb hasUserRead: true, hasUserWrite: true, hasOrganizationsRead: true, hasOrganizationsWrite: false''))"
    using isTokenSufficientAccess_three_of_four [OF a n] example_grants_three(4) by auto
  ultimately show ?thesis using example_three_of_four(1) by blast
qed

subsection \<open>C9: the URL of the client\<close>

text \<open>
  C9. Every client that \<^verbatim>\<open>createClient\<close> constructs or returns has the URL
  \<^verbatim>\<open>http://host:port\<close> and the configured token, whether or not \<^verbatim>\<open>TLS\<close> is set; the
  TLS flag decides only whether the client carries TLS options.
\<close>

theorem createClient_url_is_http:
  assumes "fst (createClient lib srv i w) = Inr c \<or>
           EvNewClient c \<in> set (drop (length w) (snd (createClient lib srv i w)))"
  shows "serverURL c = ''http://'' @ Host i @ '':'' @ Port i \<and>
         authToken c = Token i \<and> (clientOptions c \<noteq> None \<longleftrightarrow> TLS i)"
proof (cases "buildClient lib i w")
  case (Inl err)
  with assms show ?thesis by (simp add: createClient_build_fails)
next
  case (Inr b)
  obtain cli w1 where b: "b = (cli, w1)" by (cases b)
  note bc = buildClient_Inr [OF Inr [unfolded b]]
  from assms have "c = cli"
    using bc by (auto simp: createClient_after_build [OF Inr [unfolded b]]
                      split: option.splits prod.splits)
  with bc show ?thesis by simp
qed

theorem createClient_url_is_http_witness:
  "fst (createClient exampleLibs (exampleServer fullAccess) exampleProducer []) =
     Inr exampleClient \<and>
   \<not> TLS exampleProducer \<and> serverURL exampleClient = ''http://127.0.0.1:8086'' \<and>
   clientOptions exampleClient = None \<and>
   fst (createClient exampleLibs (exampleServer fullAccess)
          (exampleProducer\<lparr>TLS := True\<rparr>) []) = Inr exampleTLSClient \<and>
   serverURL exampleTLSClient = ''http://127.0.0.1:8086'' \<and>
   clientOptions exampleTLSClient \<noteq> None \<and>
   EvNewClient exampleClient \<in> set (drop (length ([] :: trace))
     (snd (createClient exampleLibs (exampleServer readOnly) exampleProducer [])))"
proof -
  have a: "fst (createClient exampleLibs (exampleServer fullAccess) exampleProducer []) =
     Inr exampleClient"
    by (simp add: example_createClient_full)
  have b: "fst (createClient exampleLibs (exampleServer fullAccess)
          (exampleProducer\<lparr>TLS := True\<rparr>) []) = Inr exampleTLSClient"
    by (simp add: example_createClient_TLS)
  have c: "EvNewClient exampleClient \<in> set (drop (length ([] :: trace))
     (snd (createClient exampleLibs (exampleServer readOnly) exampleProducer [])))"
    by (simp add: example_createClient_readOnly)
  from createClient_url_is_http [OF disjI1, OF a] createClient_url_is_http [OF disjI1, OF b]
       createClient_url_is_http [OF disjI2, OF c]
  show ?thesis using a b c by (simp add: example_fields)
qed

subsection \<open>C10: no rejection without an error\<close>

text \<open>
  C10. \<^verbatim>\<open>isTokenSufficientAccess\<close> never returns \<^verbatim>\<open>(false, nil)\<close>. Hence
  \<^verbatim>\<open>createClient\<close> never returns the message of its \<^verbatim>\<open>!isSufficientAccess\<close> branch, and
  whenever the client was built, the probe succeeded and the check returned \<^verbatim>\<open>false\<close>, the
  result is the check's own error wrapped in
  \<^verbatim>\<open>error getting if provided username is admin\<close>.
\<close>

theorem insufficient_access_never_without_error:
  "fst (isTokenSufficientAccess srv cli token w) \<noteq> (False, None) \<and>
   fst (createClient lib srv i w) \<noteq>
     Inl (New ''the provided user is missing permissions on the influxDB server'') \<and>
   (\<forall>c w1. buildClient lib i w = Inr (c, w1) \<and> Ping srv c (length w1) = None \<and>
       \<not> fst (fst (isTokenSufficientAccess srv c (Token i) (w1 @ [EvPing c]))) \<longrightarrow>
       (\<exists>err. snd (fst (isTokenSufficientAccess srv c (Token i) (w1 @ [EvPing c]))) = Some err \<and>
          fst (createClient lib srv i w) =
            Inl (Wrap ''error getting if provided username is admin: '' err)))"
proof (intro conjI allI impI)
  show "fst (isTokenSufficientAccess srv cli token w) \<noteq> (False, None)"
    using isTokenSufficientAccess_false [of srv cli token w]
    by (metis fst_conv snd_conv option.distinct(1))
next
  show "fst (createClient lib srv i w) \<noteq>
     Inl (New ''the provided user is missing permissions on the influxDB server'')"
  proof (cases "buildClient lib i w")
    case (Inl err)
    then show ?thesis
      using buildClient_not_missing [of lib i w] by (simp add: createClient_build_fails)
  next
    case (Inr b)
    obtain c w1 where b: "b = (c, w1)" by (cases b)
    show ?thesis
      using Inr b by (simp add: createClient_after_build split: option.splits prod.splits)
  qed
next
  fix c w1
  assume a: "buildClient lib i w = Inr (c, w1) \<and> Ping srv c (length w1) = None \<and>
       \<not> fst (fst (isTokenSufficientAccess srv c (Token i) (w1 @ [EvPing c])))"
  then obtain err where
    e: "snd (fst (isTokenSufficientAccess srv c (Token i) (w1 @ [EvPing c]))) = Some err"
    using isTokenSufficientAccess_false [of srv c "Token i" "w1 @ [EvPing c]"] by auto
  show "\<exists>err. snd (fst (isTokenSufficientAccess srv c (Token i) (w1 @ [EvPing c]))) = Some err \<and>
          fst (createClient lib srv i w) =
            Inl (Wrap ''error getting if provided username is admin: '' err)"
    using a e by (auto simp: createClient_after_build split: prod.splits)
qed

theorem insufficient_access_never_without_error_witness:
  "buildClient exampleLibs exampleProducer [] =
     Inr (exampleClient, [EvNewClient exampleClient]) \<and>
   Ping (exampleServer readOnly) exampleClient (length [EvNewClient exampleClient]) = None \<and>
   \<not> fst (fst (isTokenSufficientAccess (exampleServer readOnly) exampleClient
               (Token exampleProducer) ([EvNewClient exampleClient] @ [EvPing exampleClient]))) \<and>
   (\<exists>err. fst (createClient exampleLibs (exampleServer readOnly) exampleProducer []) =
      Inl (Wrap ''error getting if provided username is admin: '' err))"
proof -
  have r: "\<not> fst (fst (isTokenSufficientAccess (exampleServer readOnly) exampleClient
               (Token exampleProducer) ([EvNewClient exampleClient] @ [EvPing exampleClient])))"
    by (simp add: isTokenSufficientAccess_Inr example_server example_grants_readOnly
          example_fields)
  from insufficient_access_never_without_error
         [of "exampleServer readOnly" exampleClient "''tkn-1''" "[]" exampleLibs exampleProducer]
  have "\<exists>err. fst (createClient exampleLibs (exampleServer readOnly) exampleProducer []) =
      Inl (Wrap ''error getting if provided username is admin: '' err)"
    using example_build [of exampleLibs] r example_server(1) by blast
  then show ?thesis using example_build [of exampleLibs] r by (simp add: example_server)
qed

subsection \<open>Connection and its events\<close>

lemma createClient_Inr:
  assumes "createClient lib srv i w = (Inr c, w')"
  shows "w' = w @ [EvNewClient c, EvPing c, EvGetAuthorizations c]"
proof (cases "buildClient lib i w")
  case (Inl err)
  with assms show ?thesis by (simp add: createClient_build_fails)
next
  case (Inr b)
  obtain cli w1 where b: "b = (cli, w1)" by (cases b)
  from assms buildClient_Inr [OF Inr [unfolded b]] show ?thesis
    by (auto simp: createClient_after_build [OF Inr [unfolded b]]
             split: option.splits prod.splits)
qed

lemma createClient_events:
  "\<exists>evs. snd (createClient lib srv i w) = w @ evs \<and>
     set evs \<subseteq> range EvNewClient \<union> range EvPing \<union> range EvGetAuthorizations"
proof (cases "buildClient lib i w")
  case (Inl err)
  then show ?thesis by (simp add: createClient_build_fails)
next
  case (Inr b)
  obtain cli w1 where b: "b = (cli, w1)" by (cases b)
  from buildClient_Inr [OF Inr [unfolded b]] show ?thesis
    by (auto simp: createClient_after_build [OF Inr [unfolded b]]
             split: option.splits prod.splits)
qed

lemma Connection_cached:
  "Initialized i \<Longrightarrow> client i = Some c \<Longrightarrow> Connection lib srv i w = (Inr c, i, w)"
  by (simp add: Connection_def)

lemma Connection_miss:
  "Initialized i \<Longrightarrow> client i = None \<Longrightarrow>
   Connection lib srv i w =
     (case createClient lib srv i w of
        (Inl err, w1) \<Rightarrow> (Inl err, i, w1)
      | (Inr cli, w1) \<Rightarrow> (Inr cli, i\<lparr>client := Some cli\<rparr>, w1))"
  by (simp add: Connection_def)

lemma Connection_events:
  "\<exists>evs. snd (snd (Connection lib srv i w)) = w @ evs \<and>
     set evs \<subseteq> range EvNewClient \<union> range EvPing \<union> range EvGetAuthorizations"
  using createClient_events [of lib srv i w]
  by (auto simp: Connection_def split: option.splits prod.splits sum.splits)

lemma Connection_Inr:
  assumes "Connection lib srv i w = (Inr c, i', w')"
  shows "Initialized i \<and> client i' = Some c \<and>
     ((client i = Some c \<and> i' = i \<and> w' = w) \<or>
      (client i = None \<and> i' = i\<lparr>client := Some c\<rparr> \<and>
       w' = w @ [EvNewClient c, EvPing c, EvGetAuthorizations c]))"
proof -
  from assms have init: "Initialized i" by (auto simp: Connection_def split: if_splits)
  show ?thesis
  proof (cases "client i")
    case None
    obtain r w1 where cc: "createClient lib srv i w = (r, w1)" by (cases "createClient lib srv i w")
    from assms have "r = Inr c" "w1 = w'" "i' = i\<lparr>client := Some c\<rparr>"
      by (auto simp: Connection_miss [OF init None] cc split: sum.splits)
    with createClient_Inr [of lib srv i w c w'] cc init None show ?thesis by simp
  next
    case (Some d)
    with assms init show ?thesis by (simp add: Connection_cached)
  qed
qed

subsection \<open>The steps of Initialize\<close>

lemma storeExported_unexported:
  "client (storeExported d i) = client i"
  "certificate (storeExported d i) = certificate i"
  "privateKey (storeExported d i) = privateKey i"
  "issuingCA (storeExported d i) = issuingCA i"
  "rawConfig (storeExported d i) = rawConfig i"
  "connectTimeout (storeExported d i) = connectTimeout i"
  by (simp_all add: storeExported_def)

lemma storeExported_exported:
  "Host (storeExported d i) = Host d" "Token (storeExported d i) = Token d"
  "Port (storeExported d i) = Port d" "TLS (storeExported d i) = TLS d"
  "InsecureTLS (storeExported d i) = InsecureTLS d"
  "ConnectTimeoutRaw (storeExported d i) = ConnectTimeoutRaw d"
  "TLSMinVersion (storeExported d i) = TLSMinVersion d"
  "PemBundle (storeExported d i) = PemBundle d" "PemJSON (storeExported d i) = PemJSON d"
  "DefaultBucket (storeExported d i) = DefaultBucket d"
  "Organization (storeExported d i) = Organization d"
  "Initialized (storeExported d i) = Initialized d" "Type (storeExported d i) = Type d"
  by (simp_all add: storeExported_def)

lemma applyDefaults_fields:
  "client (applyDefaults i) = client i"
  "certificate (applyDefaults i) = certificate i"
  "privateKey (applyDefaults i) = privateKey i"
  "issuingCA (applyDefaults i) = issuingCA i"
  "rawConfig (applyDefaults i) = rawConfig i"
  "connectTimeout (applyDefaults i) = connectTimeout i"
  "Host (applyDefaults i) = Host i" "Token (applyDefaults i) = Token i"
  "TLS (applyDefaults i) = TLS i" "InsecureTLS (applyDefaults i) = InsecureTLS i"
  "TLSMinVersion (applyDefaults i) = TLSMinVersion i"
  "PemBundle (applyDefaults i) = PemBundle i" "PemJSON (applyDefaults i) = PemJSON i"
  "DefaultBucket (applyDefaults i) = DefaultBucket i"
  "Organization (applyDefaults i) = Organization i"
  "Initialized (applyDefaults i) = Initialized i" "Type (applyDefaults i) = Type i"
  "Port (applyDefaults i) = (if Port i = [] then ''8086'' else Port i)"
  "ConnectTimeoutRaw (applyDefaults i) =
     (if ConnectTimeoutRaw i = INil then IString ''5s'' else ConnectTimeoutRaw i)"
  by (simp_all add: applyDefaults_def Let_def)

lemma assembleCertificates_keeps:
  assumes "assembleCertificates lib i = Inr i'"
  shows "client i' = client i" "Initialized i' = Initialized i"
    "PemJSON i' = PemJSON i" "PemBundle i' = PemBundle i"
    "Host i' = Host i" "Token i' = Token i" "Port i' = Port i"
  using assms
  by (auto simp: assembleCertificates_def storeCertBundle_def split: if_splits sum.splits)

lemma configure_client: "client (snd (configure lib req i)) = client i"
  by (auto simp: configure_def Let_def storeExported_unexported applyDefaults_fields
        assembleCertificates_keeps(1) split: prod.splits option.splits sum.splits)

lemma configure_None:
  assumes "configure lib req i = (None, i')"
  shows "Initialized i'" "client i' = client i"
proof -
  show "client i' = client i" using configure_client [of lib req i] assms by simp
  show "Initialized i'"
    using assms
    by (auto simp: configure_def Let_def split: prod.splits option.splits sum.splits if_splits)
qed

lemma Initialize_Inr:
  assumes "Initialize lib srv req i w = (Inr resp, i', w')"
  shows "\<exists>j. configure lib req i = (None, j) \<and>
          (if VerifyConnection req
           then \<exists>c wl. Connection lib srv j (w @ [EvLock]) = (Inr c, i', wl) \<and> w' = wl @ [EvUnlock]
           else i' = j \<and> w' = w @ [EvLock, EvUnlock])"
  using assms
  by (auto simp: Initialize_def InitializeLocked_def Lock_def Unlock_def
           split: prod.splits option.splits sum.splits if_splits)

lemma Initialize_events:
  "\<exists>evs. snd (snd (Initialize lib srv req i w)) = w @ [EvLock] @ evs @ [EvUnlock] \<and>
     set evs \<subseteq> range EvNewClient \<union> range EvPing \<union> range EvGetAuthorizations"
proof -
  obtain e j where c: "configure lib req i = (e, j)" by (cases "configure lib req i")
  obtain evs where ev: "snd (snd (Connection lib srv j (w @ [EvLock]))) = (w @ [EvLock]) @ evs"
     "set evs \<subseteq> range EvNewClient \<union> range EvPing \<union> range EvGetAuthorizations"
    using Connection_events [of lib srv j "w @ [EvLock]"] by blast
  show ?thesis
  proof (cases "e = None \<and> VerifyConnection req")
    case True
    then have "snd (snd (Initialize lib srv req i w)) = w @ [EvLock] @ evs @ [EvUnlock]"
      using c ev(1)
      by (auto simp: Initialize_def InitializeLocked_def Lock_def Unlock_def
               split: prod.splits sum.splits)
    with ev(2) show ?thesis by blast
  next
    case False
    then have "snd (snd (Initialize lib srv req i w)) = w @ [EvLock] @ [] @ [EvUnlock]"
      using c
      by (auto simp: Initialize_def InitializeLocked_def Lock_def Unlock_def
               split: prod.splits sum.splits option.splits)
    then show ?thesis by (intro exI [of _ "[]"]) simp
  qed
qed






subsection \<open>More of the example environment\<close>

lemma example_decode:
  "WeakDecode exampleLibs (Config exampleRequest)
     (exportedOf (zeroProducer\<lparr>rawConfig := Config exampleRequest\<rparr>)) =
   (None, exportedOf (exampleProducer\<lparr>Port := [], ConnectTimeoutRaw := INil,
      Initialized := False\<rparr>))"
  by (simp add: exampleLibs_def exampleDecode_def stringKey_def boolKey_def exportedOf_def
        exampleRequest_def zeroProducer_def exampleProducer_def)

lemma example_bad_decode:
  "WeakDecode exampleLibs (Config badRequest)
     (exportedOf (zeroProducer\<lparr>rawConfig := Config badRequest\<rparr>)) = (None, badDecoded)"
  by (simp add: exampleLibs_def exampleDecode_def stringKey_def boolKey_def exportedOf_def
        badRequest_def zeroProducer_def badDecoded_def)

lemma example_configure:
  "configure exampleLibs exampleRequest zeroProducer = (None, exampleProducer)"
proof -
  have p: "ParseDurationSecond exampleLibs (IString ''5s'') = (5000000000, None)"
    by (simp add: exampleLibs_def)
  have a: "assembleCertificates exampleLibs
      (zeroProducer\<lparr>Host := ''127.0.0.1'', Token := ''tkn-1'', Port := ''8086'',
       ConnectTimeoutRaw := IString ''5s'', DefaultBucket := ''telegraf'',
       Organization := ''ACME'', connectTimeout := 5000000000,
       rawConfig := Config exampleRequest\<rparr>) =
     Inr (zeroProducer\<lparr>Host := ''127.0.0.1'', Token := ''tkn-1'', Port := ''8086'',
       ConnectTimeoutRaw := IString ''5s'', DefaultBucket := ''telegraf'',
       Organization := ''ACME'', connectTimeout := 5000000000,
       rawConfig := Config exampleRequest\<rparr>)"
    by (simp add: assembleCertificates_def zeroProducer_def)
  show ?thesis
    unfolding configure_def Let_def example_decode
    using p a
    by (simp add: exportedOf_def storeExported_def applyDefaults_def exampleProducer_def
          zeroProducer_def)
qed

lemma example_Initialize:
  "Initialize exampleLibs srv exampleRequest zeroProducer [] =
     (Inr (InitializeResponse (Config exampleRequest)), exampleProducer, [EvLock, EvUnlock])"
proof -
  have v: "\<not> VerifyConnection exampleRequest" by (simp add: exampleRequest_def)
  show ?thesis
    by (simp add: Initialize_def InitializeLocked_def example_configure Lock_def Unlock_def v)
qed

lemma example_Connection_full:
  "Connection lib (exampleServer fullAccess) exampleProducer w =
     (Inr (exampleClient\<lparr>cid := length w\<rparr>),
      exampleProducer\<lparr>client := Some (exampleClient\<lparr>cid := length w\<rparr>)\<rparr>,
      w @ [EvNewClient (exampleClient\<lparr>cid := length w\<rparr>),
           EvPing (exampleClient\<lparr>cid := length w\<rparr>),
           EvGetAuthorizations (exampleClient\<lparr>cid := length w\<rparr>)])"
proof -
  have b: "buildClient lib exampleProducer w =
     Inr (exampleClient\<lparr>cid := length w\<rparr>, w @ [EvNewClient (exampleClient\<lparr>cid := length w\<rparr>)])"
    by (simp add: buildClient_def NewClient_def Let_def exampleClient_def example_fields)
  have "createClient lib (exampleServer fullAccess) exampleProducer w =
     (Inr (exampleClient\<lparr>cid := length w\<rparr>),
      w @ [EvNewClient (exampleClient\<lparr>cid := length w\<rparr>),
           EvPing (exampleClient\<lparr>cid := length w\<rparr>),
           EvGetAuthorizations (exampleClient\<lparr>cid := length w\<rparr>)])"
    by (simp add: createClient_after_build [OF b] example_server
        isTokenSufficientAccess_Inr example_grants_full example_fields)
  then show ?thesis by (simp add: Connection_miss example_fields)
qed

lemma example_createClient_three:
  "createClient lib (exampleServer threeOfFour) exampleProducer [] =
     (Inl (Wrap ''error getting if provided username is admin: ''
        (New ''the provided token does not have sufficient permissions in influxdb hasUserRead: true, hasUserWrite: true, hasOrganizationsRead: true, hasOrganizationsWrite: false'')),
      [EvNewClient exampleClient, EvPing exampleClient, EvGetAuthorizations exampleClient])"
  by (simp add: createClient_after_build [OF example_build] example_server
        isTokenSufficientAccess_Inr example_grants_three example_fields
        insufficientMessage_scan fmtBool_def)

subsection \<open>C2: a rejected token\<close>

text \<open>
  C2, as the code has it. On an initialized producer with no cached client, when the
  client is built, the probe succeeds and the records do not grant the token all four
  permissions, \<^verbatim>\<open>Connection\<close> returns the permission error wrapped in
  \<^verbatim>\<open>error getting if provided username is admin\<close>; the producer is unchanged, so no
  client is cached; the events of the call are the construction, the probe and the
  query, with no \<^verbatim>\<open>Close\<close> of any client among them; and the next \<^verbatim>\<open>Connection\<close> runs
  \<^verbatim>\<open>createClient\<close> again from the start, whatever the server answers then.
\<close>

theorem Connection_rejected_token_not_cached:
  assumes "Initialized i" and "client i = None"
      and "buildClient lib i w = Inr (cli, w1)"
      and "Ping srv cli (length w1) = None"
      and "GetAuthorizations srv cli (Suc (length w1)) = Inr as"
      and "\<not> (grants as (Token i) ''read'' ''users'' \<and> grants as (Token i) ''write'' ''users''
             \<and> grants as (Token i) ''read'' ''orgs'' \<and> grants as (Token i) ''write'' ''orgs'')"
  shows "Connection lib srv i w =
           (Inl (Wrap ''error getting if provided username is admin: ''
                  (New (insufficientMessage (fold (authorizationStep (Token i)) as noFlags)))),
            i, w @ [EvNewClient cli, EvPing cli, EvGetAuthorizations cli]) \<and>
         client (fst (snd (Connection lib srv i w))) = None \<and>
         (\<forall>c. EvClose c \<notin> set (drop (length w) (snd (snd (Connection lib srv i w))))) \<and>
         (\<forall>srv'. Connection lib srv' (fst (snd (Connection lib srv i w)))
                    (snd (snd (Connection lib srv i w))) =
            (case createClient lib srv' i (snd (snd (Connection lib srv i w))) of
               (Inl err, w2) \<Rightarrow> (Inl err, i, w2)
             | (Inr c, w2) \<Rightarrow> (Inr c, i\<lparr>client := Some c\<rparr>, w2)))"
proof -
  have w1: "w1 = w @ [EvNewClient cli]" using buildClient_Inr [OF assms(3)] by simp
  have "fst (isTokenSufficientAccess srv cli (Token i) (w1 @ [EvPing cli])) =
     (False, Some (New (insufficientMessage (fold (authorizationStep (Token i)) as noFlags))))"
    using assms(5,6) by (subst isTokenSufficientAccess_Inr [of _ _ _ as]) auto
  then have "createClient lib srv i w =
     (Inl (Wrap ''error getting if provided username is admin: ''
            (New (insufficientMessage (fold (authorizationStep (Token i)) as noFlags)))),
      w @ [EvNewClient cli, EvPing cli, EvGetAuthorizations cli])"
    using assms(4) by (simp add: createClient_after_build [OF assms(3)] w1)
  then have r: "Connection lib srv i w =
           (Inl (Wrap ''error getting if provided username is admin: ''
                  (New (insufficientMessage (fold (authorizationStep (Token i)) as noFlags)))),
            i, w @ [EvNewClient cli, EvPing cli, EvGetAuthorizations cli])"
    by (simp add: Connection_miss [OF assms(1,2)])
  show ?thesis
    unfolding r using assms(1,2) by (simp add: Connection_miss)
qed

theorem Connection_rejected_token_not_cached_witness:
  "Initialized exampleProducer \<and> client exampleProducer = None \<and>
   buildClient exampleLibs exampleProducer [] =
     Inr (exampleClient, [EvNewClient exampleClient]) \<and>
   Ping (exampleServer readOnly) exampleClient (length [EvNewClient exampleClient]) = None \<and>
   GetAuthorizations (exampleServer readOnly) exampleClient
     (Suc (length [EvNewClient exampleClient])) = Inr readOnly \<and>
   \<not> (grants readOnly (Token exampleProducer) ''read'' ''users'' \<and>
      grants readOnly (Token exampleProducer) ''write'' ''users'' \<and>
      grants readOnly (Token exampleProducer) ''read'' ''orgs'' \<and>
      grants readOnly (Token exampleProducer) ''write'' ''orgs'') \<and>
   Connection exampleLibs (exampleServer readOnly) exampleProducer [] =
     (Inl (Wrap ''error getting if provided username is admin: ''
        (New ''the provided token does not have sufficient permissions in influxdb hasUserRead: true, hasUserWrite: false, hasOrganizationsRead: true, hasOrganizationsWrite: false'')),
      exampleProducer,
      [EvNewClient exampleClient, EvPing exampleClient, EvGetAuthorizations exampleClient])"
proof -
  have g: "\<not> (grants readOnly (Token exampleProducer) ''read'' ''users'' \<and>
      grants readOnly (Token exampleProducer) ''write'' ''users'' \<and>
      grants readOnly (Token exampleProducer) ''read'' ''orgs'' \<and>
      grants readOnly (Token exampleProducer) ''write'' ''orgs'')"
    by (simp add: example_fields example_grants_readOnly)
  have m: "insufficientMessage (fold (authorizationStep (Token exampleProducer)) readOnly noFlags) =
    ''the provided token does not have sufficient permissions in influxdb hasUserRead: true, hasUserWrite: false, hasOrganizationsRead: true, hasOrganizationsWrite: false''"
    by (simp add: insufficientMessage_scan example_fields example_grants_readOnly fmtBool_def)
  from Connection_rejected_token_not_cached
         [OF example_fields(1) example_fields(2) example_build [of exampleLibs]
             example_server(1) example_server(2) g]
  have "Connection exampleLibs (exampleServer readOnly) exampleProducer [] =
     (Inl (Wrap ''error getting if provided username is admin: ''
        (New (insufficientMessage
               (fold (authorizationStep (Token exampleProducer)) readOnly noFlags)))),
      exampleProducer,
      [] @ [EvNewClient exampleClient, EvPing exampleClient, EvGetAuthorizations exampleClient])"
    by (rule conjunct1)
  then have "Connection exampleLibs (exampleServer readOnly) exampleProducer [] =
     (Inl (Wrap ''error getting if provided username is admin: ''
        (New ''the provided token does not have sufficient permissions in influxdb hasUserRead: true, hasUserWrite: false, hasOrganizationsRead: true, hasOrganizationsWrite: false'')),
      exampleProducer,
      [EvNewClient exampleClient, EvPing exampleClient, EvGetAuthorizations exampleClient])"
    unfolding m by simp
  with g show ?thesis
    using example_fields(1,2) example_build [of exampleLibs] example_server [of readOnly]
    by blast
qed

text \<open>
  The specification's "the handle is closed" fails: with three of the four permissions the call
  is rejected after the client was built and probed, and no event closes that client.
\<close>

theorem Connection_rejected_token_not_closed:
  "fst (Connection exampleLibs (exampleServer threeOfFour) exampleProducer []) =
     Inl (Wrap ''error getting if provided username is admin: ''
        (New ''the provided token does not have sufficient permissions in influxdb hasUserRead: true, hasUserWrite: true, hasOrganizationsRead: true, hasOrganizationsWrite: false'')) \<and>
   snd (snd (Connection exampleLibs (exampleServer threeOfFour) exampleProducer [])) =
     [EvNewClient exampleClient, EvPing exampleClient, EvGetAuthorizations exampleClient] \<and>
   EvClose exampleClient \<notin>
     set (snd (snd (Connection exampleLibs (exampleServer threeOfFour) exampleProducer [])))"
  by (simp add: Connection_miss example_fields example_createClient_three)

subsection \<open>C3: who takes the lock\<close>

text \<open>
  C3, as the code has it. \<^verbatim>\<open>Initialize\<close> and \<^verbatim>\<open>Close\<close> take the mutex first and release it
  last, with every other event of the call in between; \<^verbatim>\<open>Connection\<close> and
  \<^verbatim>\<open>secretValues\<close> never take or release it (\<^verbatim>\<open>Connection\<close> runs under the lock only
  when \<^verbatim>\<open>Initialize\<close> calls it).
\<close>

theorem lock_taken_by_Initialize_and_Close_only:
  "(\<exists>evs. snd (snd (Initialize lib srv req i w)) = w @ [EvLock] @ evs @ [EvUnlock] \<and>
      EvLock \<notin> set evs \<and> EvUnlock \<notin> set evs) \<and>
   (\<exists>evs. snd (snd (Close i w)) = w @ [EvLock] @ evs @ [EvUnlock] \<and>
      EvLock \<notin> set evs \<and> EvUnlock \<notin> set evs) \<and>
   (\<exists>evs. snd (snd (Connection lib srv i w)) = w @ evs \<and>
      EvLock \<notin> set evs \<and> EvUnlock \<notin> set evs) \<and>
   snd (secretValues i w) = w"
proof (intro conjI)
  show "\<exists>evs. snd (snd (Initialize lib srv req i w)) = w @ [EvLock] @ evs @ [EvUnlock] \<and>
      EvLock \<notin> set evs \<and> EvUnlock \<notin> set evs"
    using Initialize_events [of lib srv req i w] by blast
  show "\<exists>evs. snd (snd (Close i w)) = w @ [EvLock] @ evs @ [EvUnlock] \<and>
      EvLock \<notin> set evs \<and> EvUnlock \<notin> set evs"
    by (cases "client i") (simp_all add: Close_def Lock_def Unlock_def)
  show "\<exists>evs. snd (snd (Connection lib srv i w)) = w @ evs \<and>
      EvLock \<notin> set evs \<and> EvUnlock \<notin> set evs"
    using Connection_events [of lib srv i w] by blast
  show "snd (secretValues i w) = w" by (simp add: secretValues_def)
qed

text \<open>
  The specification's sentence fails for \<^verbatim>\<open>Connection\<close>: a whole construct, probe and query sequence
  runs without the lock being taken; and for \<^verbatim>\<open>secretValues\<close>.
\<close>

theorem Connection_takes_no_lock:
  "snd (snd (Connection exampleLibs (exampleServer fullAccess) exampleProducer [])) =
     [EvNewClient exampleClient, EvPing exampleClient, EvGetAuthorizations exampleClient] \<and>
   EvLock \<notin> set (snd (snd (Connection exampleLibs (exampleServer fullAccess) exampleProducer []))) \<and>
   EvLock \<notin> set (snd (secretValues exampleProducer []))"
  by (simp add: example_Connection_full secretValues_def exampleClient_def)

subsection \<open>C4: a timeout that does not parse\<close>

text \<open>
  C4, as the code has it. When decoding succeeds, \<^verbatim>\<open>connect_timeout\<close> decodes to a
  string and \<^verbatim>\<open>ParseDurationSecond\<close> rejects it, \<^verbatim>\<open>Initialize\<close> returns
  \<^verbatim>\<open>invalid connect_timeout\<close> wrapping the parser's error, and its only events are
  taking and releasing the lock. By then the struct has been written to: \<^verbatim>\<open>rawConfig\<close>
  is the request's map, the exported fields are the decoded ones with the defaults
  applied, \<^verbatim>\<open>connectTimeout\<close> is what the parser returned. The fields the call leaves
  as they were are \<^verbatim>\<open>certificate\<close>, \<^verbatim>\<open>privateKey\<close>, \<^verbatim>\<open>issuingCA\<close> and \<^verbatim>\<open>client\<close>.
\<close>

theorem Initialize_bad_timeout:
  assumes dec: "WeakDecode lib (Config req) (exportedOf (i\<lparr>rawConfig := Config req\<rparr>)) = (None, d)"
      and raw: "ConnectTimeoutRaw d = IString s"
      and bad: "ParseDurationSecond lib (IString s) = (t, Some err)"
  shows "Initialize lib srv req i w =
           (Inl (Wrap ''invalid connect_timeout: '' err),
            (applyDefaults (storeExported d (i\<lparr>rawConfig := Config req\<rparr>)))\<lparr>connectTimeout := t\<rparr>,
            w @ [EvLock, EvUnlock]) \<and>
         certificate (fst (snd (Initialize lib srv req i w))) = certificate i \<and>
         privateKey (fst (snd (Initialize lib srv req i w))) = privateKey i \<and>
         issuingCA (fst (snd (Initialize lib srv req i w))) = issuingCA i \<and>
         client (fst (snd (Initialize lib srv req i w))) = client i \<and>
         Initialized (fst (snd (Initialize lib srv req i w))) = Initialized d \<and>
         rawConfig (fst (snd (Initialize lib srv req i w))) = Config req \<and>
         Host (fst (snd (Initialize lib srv req i w))) = Host d \<and>
         Token (fst (snd (Initialize lib srv req i w))) = Token d \<and>
         connectTimeout (fst (snd (Initialize lib srv req i w))) = t"
proof -
  have r: "ConnectTimeoutRaw (applyDefaults (storeExported d (i\<lparr>rawConfig := Config req\<rparr>))) = IString s"
    using raw by (simp add: applyDefaults_fields storeExported_exported)
  have c: "configure lib req i =
     (Some (Wrap ''invalid connect_timeout: '' err),
      (applyDefaults (storeExported d (i\<lparr>rawConfig := Config req\<rparr>)))\<lparr>connectTimeout := t\<rparr>)"
    by (simp add: configure_def Let_def dec r bad)
  have "Initialize lib srv req i w =
           (Inl (Wrap ''invalid connect_timeout: '' err),
            (applyDefaults (storeExported d (i\<lparr>rawConfig := Config req\<rparr>)))\<lparr>connectTimeout := t\<rparr>,
            w @ [EvLock, EvUnlock])"
    by (simp add: Initialize_def InitializeLocked_def c Lock_def Unlock_def)
  then show ?thesis
    by (simp add: applyDefaults_fields storeExported_exported storeExported_unexported)
qed

theorem Initialize_bad_timeout_witness:
  "WeakDecode exampleLibs (Config badRequest)
     (exportedOf (zeroProducer\<lparr>rawConfig := Config badRequest\<rparr>)) = (None, badDecoded) \<and>
   ConnectTimeoutRaw badDecoded = IString ''bogus'' \<and>
   ParseDurationSecond exampleLibs (IString ''bogus'') =
     (0, Some (New ''time: invalid duration'')) \<and>
   fst (Initialize exampleLibs (exampleServer fullAccess) badRequest zeroProducer []) =
     Inl (Wrap ''invalid connect_timeout: '' (New ''time: invalid duration'')) \<and>
   snd (snd (Initialize exampleLibs (exampleServer fullAccess) badRequest zeroProducer [])) =
     [EvLock, EvUnlock] \<and>
   client (fst (snd (Initialize exampleLibs (exampleServer fullAccess) badRequest zeroProducer [])))
     = None \<and>
   rawConfig (fst (snd (Initialize exampleLibs (exampleServer fullAccess) badRequest
     zeroProducer []))) = Config badRequest"
proof -
  have p: "ParseDurationSecond exampleLibs (IString ''bogus'') =
             (0, Some (New ''time: invalid duration''))"
    by (simp add: exampleLibs_def)
  have r: "ConnectTimeoutRaw badDecoded = IString ''bogus''"
    by (simp add: badDecoded_def)
  have z: "client zeroProducer = None" by (simp add: zeroProducer_def)
  from Initialize_bad_timeout [OF example_bad_decode r p, of "exampleServer fullAccess" "[]"]
  show ?thesis
    using p r z
    by (simp add: example_bad_decode applyDefaults_fields storeExported_unexported)
qed

text \<open>
  The specification's "the state after the failed call equals the state before" fails: a
  producer that was never initialized holds the decoded host after the failed call.
\<close>

theorem bad_timeout_changes_state:
  "fst (Initialize exampleLibs (exampleServer fullAccess) badRequest zeroProducer []) =
     Inl (Wrap ''invalid connect_timeout: '' (New ''time: invalid duration'')) \<and>
   fst (snd (Initialize exampleLibs (exampleServer fullAccess) badRequest zeroProducer [])) \<noteq>
     zeroProducer \<and>
   Host zeroProducer = [] \<and>
   Host (fst (snd (Initialize exampleLibs (exampleServer fullAccess) badRequest zeroProducer [])))
     = ''127.0.0.1''"
proof -
  have p: "ParseDurationSecond exampleLibs (IString ''bogus'') =
             (0, Some (New ''time: invalid duration''))"
    by (simp add: exampleLibs_def)
  have r: "ConnectTimeoutRaw badDecoded = IString ''bogus''" "Host badDecoded = ''127.0.0.1''"
    by (simp_all add: badDecoded_def)
  have c: "configure exampleLibs badRequest zeroProducer =
     (Some (Wrap ''invalid connect_timeout: '' (New ''time: invalid duration'')),
      (applyDefaults (storeExported badDecoded (zeroProducer\<lparr>rawConfig := Config badRequest\<rparr>)))
        \<lparr>connectTimeout := 0\<rparr>)"
    by (simp add: configure_def Let_def example_bad_decode applyDefaults_fields
          storeExported_exported r p)
  have h: "Host zeroProducer = []" by (simp add: zeroProducer_def)
  have i: "Host (fst (snd (Initialize exampleLibs (exampleServer fullAccess) badRequest zeroProducer [])))
     = ''127.0.0.1''"
    by (simp add: Initialize_def InitializeLocked_def c applyDefaults_fields
          storeExported_exported r)
  have "fst (snd (Initialize exampleLibs (exampleServer fullAccess) badRequest zeroProducer [])) \<noteq>
     zeroProducer"
    using h i by auto
  then show ?thesis using h i by (simp add: Initialize_def InitializeLocked_def c)
qed

subsection \<open>C5: Connection twice\<close>

text \<open>
  C5. Take a producer with no cached client, initialize it successfully (with or
  without the connection check), and let a first \<^verbatim>\<open>Connection\<close> return a handle. Then a
  second \<^verbatim>\<open>Connection\<close> returns the same handle, leaves producer and trace as they are
  (no event, whatever the server would answer), and from the start of \<^verbatim>\<open>Initialize\<close> on
  exactly one client was constructed, probed and checked: that handle.
\<close>

theorem Connection_twice_one_sequence:
  assumes fresh: "client i0 = None"
      and init: "Initialize lib srv req i0 w0 = (Inr resp, i1, w1)"
      and first: "Connection lib srv i1 w1 = (Inr h, i2, w2)"
  shows "(\<forall>srv'. Connection lib srv' i2 w2 = (Inr h, i2, w2)) \<and>
         networkEvents (drop (length w0) w2) =
           [EvNewClient h, EvPing h, EvGetAuthorizations h]"
proof -
  from Initialize_Inr [OF init] obtain j where
    j: "configure lib req i0 = (None, j)" and
    v: "if VerifyConnection req
        then \<exists>c wl. Connection lib srv j (w0 @ [EvLock]) = (Inr c, i1, wl) \<and> w1 = wl @ [EvUnlock]
        else i1 = j \<and> w1 = w0 @ [EvLock, EvUnlock]"
    by blast
  have jn: "client j = None" and ji: "Initialized j"
    using configure_None [OF j] fresh by simp_all
  note f = Connection_Inr [OF first]
  have cached: "Initialized i2 \<and> client i2 = Some h"
    using f by auto
  have ev: "networkEvents (drop (length w0) w2) =
           [EvNewClient h, EvPing h, EvGetAuthorizations h]"
  proof (cases "VerifyConnection req")
    case True
    with v obtain c wl where
      c: "Connection lib srv j (w0 @ [EvLock]) = (Inr c, i1, wl)" and w1: "w1 = wl @ [EvUnlock]"
      by auto
    from Connection_Inr [OF c] jn have
      "client i1 = Some c" "wl = (w0 @ [EvLock]) @ [EvNewClient c, EvPing c, EvGetAuthorizations c]"
      by auto
    with f w1 show ?thesis by (auto simp: networkEvents_def)
  next
    case False
    with v have "i1 = j" "w1 = w0 @ [EvLock, EvUnlock]" by auto
    with f jn show ?thesis by (auto simp: networkEvents_def)
  qed
  from cached ev show ?thesis by (simp add: Connection_cached)
qed

theorem Connection_twice_one_sequence_witness:
  "client zeroProducer = None \<and>
   Initialize exampleLibs (exampleServer fullAccess) exampleRequest zeroProducer [] =
     (Inr (InitializeResponse (Config exampleRequest)), exampleProducer, [EvLock, EvUnlock]) \<and>
   Connection exampleLibs (exampleServer fullAccess) exampleProducer [EvLock, EvUnlock] =
     (Inr (exampleClient\<lparr>cid := 2\<rparr>),
      exampleProducer\<lparr>client := Some (exampleClient\<lparr>cid := 2\<rparr>)\<rparr>,
      [EvLock, EvUnlock, EvNewClient (exampleClient\<lparr>cid := 2\<rparr>),
       EvPing (exampleClient\<lparr>cid := 2\<rparr>), EvGetAuthorizations (exampleClient\<lparr>cid := 2\<rparr>)]) \<and>
   Connection exampleLibs (exampleServer readOnly)
       (exampleProducer\<lparr>client := Some (exampleClient\<lparr>cid := 2\<rparr>)\<rparr>)
       [EvLock, EvUnlock, EvNewClient (exampleClient\<lparr>cid := 2\<rparr>),
        EvPing (exampleClient\<lparr>cid := 2\<rparr>), EvGetAuthorizations (exampleClient\<lparr>cid := 2\<rparr>)] =
     (Inr (exampleClient\<lparr>cid := 2\<rparr>),
      exampleProducer\<lparr>client := Some (exampleClient\<lparr>cid := 2\<rparr>)\<rparr>,
      [EvLock, EvUnlock, EvNewClient (exampleClient\<lparr>cid := 2\<rparr>),
       EvPing (exampleClient\<lparr>cid := 2\<rparr>), EvGetAuthorizations (exampleClient\<lparr>cid := 2\<rparr>)])"
proof -
  have z: "client zeroProducer = None" by (simp add: zeroProducer_def)
  have c: "Connection exampleLibs (exampleServer fullAccess) exampleProducer [EvLock, EvUnlock] =
     (Inr (exampleClient\<lparr>cid := 2\<rparr>),
      exampleProducer\<lparr>client := Some (exampleClient\<lparr>cid := 2\<rparr>)\<rparr>,
      [EvLock, EvUnlock, EvNewClient (exampleClient\<lparr>cid := 2\<rparr>),
       EvPing (exampleClient\<lparr>cid := 2\<rparr>), EvGetAuthorizations (exampleClient\<lparr>cid := 2\<rparr>)])"
    using example_Connection_full [of exampleLibs "[EvLock, EvUnlock]"] by simp
  from Connection_twice_one_sequence [OF z example_Initialize c]
  show ?thesis using z c by (simp add: example_Initialize)
qed

subsection \<open>C7: a certificate without a private key\<close>




subsection \<open>Which parser the certificate assembly consults\<close>










subsection \<open>C6: certificate assembly\<close>



end
